theory Spec2Isabelle
  imports Complex_Main
begin

text \<open>
  The trading bot of \<open>main.py\<close>: the class \<open>TradingBot\<close> with its quote cache, its
  order calls and its monitor, and the chat commands /trade and /status. The bot runs
  on one asyncio event loop; the dispatcher handles each chat command in a task of its
  own, so that a command can arrive while another one is suspended. The model cuts
  every async function at its suspensions and lets an event list say what happens
  between them.
\<close>

section \<open>Python values that reach the bot\<close>

text \<open>
  The feed and the gateway hand the bot decoded JSON messages. A dictionary is an
  association list read with \<open>map_of\<close>; a number is the real it denotes. A Python
  float is the real it denotes, and a price is a \<open>real\<close>; the arithmetic of floats rounds
  (see below). Infinities and NaN are outside the model.
\<close>

datatype json =
    JNull
  | JBool bool
  | JNum real
  | JStr string
  | JList "json list"
  | JDict "(string \<times> json) list"

datatype error = AttributeError | IndexError | KeyError | TypeError | ValueError
  | ZeroDivisionError | ExternalError

text \<open>Truth value of a Python object, as \<open>if x\<close> and \<open>not x\<close> read it.\<close>

fun truthy :: "json \<Rightarrow> bool" where
  "truthy JNull = False"
| "truthy (JBool b) = b"
| "truthy (JNum x) = (x \<noteq> 0)"
| "truthy (JStr s) = (s \<noteq> [])"
| "truthy (JList xs) = (xs \<noteq> [])"
| "truthy (JDict kvs) = (kvs \<noteq> [])"

text \<open>\<open>obj.get(key, default)\<close>: only a dict has the method.\<close>

fun py_get :: "json \<Rightarrow> string \<Rightarrow> json \<Rightarrow> error + json" where
  "py_get (JDict kvs) k d = Inr (case map_of kvs k of None \<Rightarrow> d | Some v \<Rightarrow> v)"
| "py_get _ k d = Inl AttributeError"

text \<open>\<open>obj[key]\<close> with a string key.\<close>

fun py_item :: "json \<Rightarrow> string \<Rightarrow> error + json" where
  "py_item (JDict kvs) k = (case map_of kvs k of None \<Rightarrow> Inl KeyError | Some v \<Rightarrow> Inr v)"
| "py_item _ k = Inl TypeError"

text \<open>\<open>obj[0]\<close>: a decoded JSON dict has string keys only, so the key 0 is missing.\<close>

fun py_item0 :: "json \<Rightarrow> error + json" where
  "py_item0 (JList []) = Inl IndexError"
| "py_item0 (JList (x # xs)) = Inr x"
| "py_item0 (JStr []) = Inl IndexError"
| "py_item0 (JStr (c # cs)) = Inr (JStr [c])"
| "py_item0 (JDict kvs) = Inl KeyError"
| "py_item0 _ = Inl TypeError"

text \<open>
  \<open>float(obj)\<close>. Reading a string is Python's own parser, which is not part of the
  repository: it is the parameter \<open>float_str\<close>, \<open>None\<close> where Python raises ValueError.
\<close>

fun py_float :: "(string \<Rightarrow> real option) \<Rightarrow> json \<Rightarrow> error + real" where
  "py_float float_str (JNum x) = Inr x"
| "py_float float_str (JBool b) = Inr (if b then 1 else 0)"
| "py_float float_str (JStr s) =
     (case float_str s of None \<Rightarrow> Inl ValueError | Some x \<Rightarrow> Inr x)"
| "py_float float_str _ = Inl TypeError"

text \<open>\<open>obj == 0\<close>.\<close>

fun py_eq_zero :: "json \<Rightarrow> bool" where
  "py_eq_zero (JNum x) = (x = 0)"
| "py_eq_zero (JBool b) = (\<not> b)"
| "py_eq_zero _ = False"

text \<open>
  A reader of unsigned decimal numerals, used where a concrete \<open>float_str\<close> is needed:
  on a non-empty string of ASCII digits it gives the number Python's \<open>float\<close> gives.
\<close>

definition digit_val :: "char \<Rightarrow> nat" where
  "digit_val c = of_char c - 48"

definition is_digit :: "char \<Rightarrow> bool" where
  "is_digit c = (48 \<le> (of_char c :: nat) \<and> (of_char c :: nat) \<le> 57)"

definition float_digits :: "string \<Rightarrow> real option" where
  "float_digits s =
     (if s \<noteq> [] \<and> list_all is_digit s
      then Some (real (foldl (\<lambda>n c. 10 * n + digit_val c) 0 s))
      else None)"

section \<open>Arithmetic of Python floats\<close>

text \<open>
  A Python float is an IEEE 754 double: 53 significant bits, and every \<open>+\<close>, \<open>-\<close>, \<open>*\<close>
  and \<open>/\<close> gives the double nearest to the exact result, the one with an even last bit
  when two are equally near. \<open>binade x\<close> is the exponent of the power of two at or
  below \<open>\<bar>x\<bar>\<close>; below \<open>2 powi (- 1022)\<close> the spacing of the doubles stays that of the last
  normal binade. A result beyond the largest double is an infinity in Python and is
  outside the model.
\<close>

fun bit_length :: "nat \<Rightarrow> nat" where
  "bit_length n = (if n = 0 then 0 else Suc (bit_length (n div 2)))"

declare bit_length.simps [simp del]

definition binade :: "real \<Rightarrow> int" where
  "binade x =
     (let a = \<bar>x\<bar>
      in if 1 \<le> a then int (bit_length (nat \<lfloor>a\<rfloor>)) - 1
         else - int (bit_length (nat (\<lceil>1 / a\<rceil> - 1))))"

definition round_to_even :: "real \<Rightarrow> int" where
  "round_to_even x =
     (let f = \<lfloor>x\<rfloor>; d = x - of_int f
      in if d < 1 / 2 then f else if 1 / 2 < d then f + 1 else if even f then f else f + 1)"

definition double_round :: "real \<Rightarrow> real" where
  "double_round x =
     (if x = 0 then 0
      else (let q = 2 powi (max (binade x) (- 1022) - 52)
            in of_int (round_to_even (x / q)) * q))"

definition double_add :: "real \<Rightarrow> real \<Rightarrow> real" where
  "double_add x y = double_round (x + y)"

definition double_sub :: "real \<Rightarrow> real \<Rightarrow> real" where
  "double_sub x y = double_round (x - y)"

definition double_mul :: "real \<Rightarrow> real \<Rightarrow> real" where
  "double_mul x y = double_round (x * y)"

text \<open>The divisor is not zero here: Python raises ZeroDivisionError before it divides.\<close>

definition double_div :: "real \<Rightarrow> real \<Rightarrow> real" where
  "double_div x y = double_round (x / y)"

section \<open>The bot's data\<close>

text \<open>Environment values read at start-up (lines 20 to 22 of main.py).\<close>

record config =
  SYMBOL :: string
  TARGET_PROFIT_PERCENT :: real
  AMOUNT :: real

text \<open>\<open>orderbook_data\<close>: a dict that always has the keys bid and ask.\<close>

record quote =
  bid :: "real option"
  ask :: "real option"

text \<open>\<open>active_position\<close>, when it is not None.\<close>

record position =
  order_id :: json
  symbol :: string
  amount :: real
  entry_price :: real
  target_price :: real

datatype side = Buy | Sell

text \<open>The answers of the chat commands, with the values they print.\<close>

datatype reply =
    AlreadyOpen
  | OpeningWait
  | PositionOpened string real real
  | CouldNotOpen
  | NoOpenPosition
  | CannotGetPrice
  | CurrentPosition string real real real real
  | StatusError
  | TradeError

text \<open>The text of the notification of line 182: pair, profit, entry, target, exit.\<close>

datatype notification = PositionClosed string real real real "real option"

datatype log_entry =
    IncompleteOrderbook
  | OrderbookReceived quote
  | HandleOrderbookError error
  | Subscribing
  | Subscribed
  | SubscribeError
  | NoOrderbookData
  | OpenTimeout
  | OpenedPosition position
  | OpenError "json option"
  | OpenException error
  | MonitorNoOrderbook
  | ClosedNotified
  | MonitorError error
  | CloseTimeout
  | ClosedOk "json option"
  | CloseError "json option"
  | CloseException error
  | StatusCommandError error
  | TradeCommandError error

text \<open>
  A coroutine suspended at an \<open>await\<close> that gives control back to the event loop:
  \<^item> \<open>TradeAnswer\<close>: \<open>trade_command\<close> at line 310, sending its first answer;
  \<^item> \<open>OpenSleep\<close>: \<open>open_position\<close> at the sleep of line 114;
  \<^item> \<open>OpenWait orderbook woken\<close>: \<open>open_position\<close> at the wait of line 138, with its
    local \<open>orderbook\<close> and whether the event has been set since the wait began;
  \<^item> \<open>Monitor\<close>: \<open>monitor_position\<close> about to test its loop condition (just created, or
    at the end of one of its sleeps);
  \<^item> \<open>CloseWait woken\<close>: \<open>close_position\<close>, called by the monitor, at the wait of line 216;
  \<^item> \<open>Finished\<close>: the coroutine has returned.
\<close>

datatype task = TradeAnswer | OpenSleep | OpenWait quote bool | Monitor | CloseWait bool
  | Finished

text \<open>
  The fields of \<open>TradingBot\<close>, then what the bot has done to the outside (orders handed
  to the gateway, answers, notifications, log lines, oldest first) and the suspended
  coroutines.
\<close>

record world =
  active_position :: "position option"
  orderbook_data :: quote
  orderbook_event :: bool
  is_subscribed :: bool
  order_response_event :: bool
  order_response :: "json option"
  orders :: "side list"
  replies :: "reply list"
  notifications :: "notification list"
  log :: "log_entry list"
  tasks :: "task list"

definition init :: world where
  "init = \<lparr> active_position = None,
            orderbook_data = \<lparr> bid = None, ask = None \<rparr>,
            orderbook_event = False,
            is_subscribed = False,
            order_response_event = False,
            order_response = None,
            orders = [], replies = [], notifications = [], log = [], tasks = [] \<rparr>"

definition logger :: "log_entry \<Rightarrow> world \<Rightarrow> world" where
  "logger l s = s\<lparr> log := log s @ [l] \<rparr>"

definition answer :: "reply \<Rightarrow> world \<Rightarrow> world" where
  "answer r s = s\<lparr> replies := replies s @ [r] \<rparr>"

text \<open>\<open>not q.get('bid')\<close> is \<open>\<not> price_truthy (bid q)\<close>: None and 0.0 are both false.\<close>

definition price_truthy :: "real option \<Rightarrow> bool" where
  "price_truthy p = (case p of None \<Rightarrow> False | Some x \<Rightarrow> x \<noteq> 0)"

section \<open>The quote cache\<close>

text \<open>Lines 52 to 58: the two prices of the message, or why there are none.\<close>

datatype parsed = Incomplete | Raised error | Prices real real

definition parse_orderbook :: "(string \<Rightarrow> real option) \<Rightarrow> json \<Rightarrow> parsed" where
  "parse_orderbook float_str message =
     (case py_get message ''data'' (JDict []) of
        Inl e \<Rightarrow> Raised e
      | Inr data \<Rightarrow>
     (case py_get data ''b'' JNull of
        Inl e \<Rightarrow> Raised e
      | Inr b \<Rightarrow>
     if \<not> truthy b then Incomplete else
     (case py_get data ''a'' JNull of
        Inl e \<Rightarrow> Raised e
      | Inr a \<Rightarrow>
     if \<not> truthy a then Incomplete else
     (case py_item0 b of Inl e \<Rightarrow> Raised e | Inr b0 \<Rightarrow>
     (case py_item0 b0 of Inl e \<Rightarrow> Raised e | Inr b00 \<Rightarrow>
     (case py_float float_str b00 of Inl e \<Rightarrow> Raised e | Inr bid_price \<Rightarrow>
     (case py_item0 a of Inl e \<Rightarrow> Raised e | Inr a0 \<Rightarrow>
     (case py_item0 a0 of Inl e \<Rightarrow> Raised e | Inr a00 \<Rightarrow>
     (case py_float float_str a00 of Inl e \<Rightarrow> Raised e | Inr ask_price \<Rightarrow>
        Prices bid_price ask_price)))))))))"

definition handle_orderbook :: "(string \<Rightarrow> real option) \<Rightarrow> json \<Rightarrow> world \<Rightarrow> world" where
  "handle_orderbook float_str message s =
     (case parse_orderbook float_str message of
        Incomplete \<Rightarrow> logger IncompleteOrderbook s
      | Raised e \<Rightarrow> logger (HandleOrderbookError e) s
      | Prices bid_price ask_price \<Rightarrow>
          (let q = \<lparr> bid = Some bid_price, ask = Some ask_price \<rparr>
           in logger (OrderbookReceived q)
                (s\<lparr> orderbook_data := q, orderbook_event := True \<rparr>)))"

definition get_order_book :: "world \<Rightarrow> quote" where
  "get_order_book s = orderbook_data s"

section \<open>Orders and their confirmations\<close>

text \<open>
  \<open>handle_order_response\<close> (lines 72 and 73). Setting an asyncio event completes every
  wait that is pending on it, whatever happens to the flag afterwards: that is the
  \<open>woken\<close> mark of the waiting coroutines.
\<close>

fun wake :: "task \<Rightarrow> task" where
  "wake (OpenWait orderbook woken) = OpenWait orderbook True"
| "wake (CloseWait woken) = CloseWait True"
| "wake t = t"

definition handle_order_response :: "json \<Rightarrow> world \<Rightarrow> world" where
  "handle_order_response message s =
     s\<lparr> order_response := Some message, order_response_event := True,
        tasks := map wake (tasks s) \<rparr>"

text \<open>
  The test of lines 143 and 221:
  \<open>self.order_response and self.order_response.get('retCode') == 0\<close>.
\<close>

definition response_ok :: "json option \<Rightarrow> error + bool" where
  "response_ok r =
     (case r of
        None \<Rightarrow> Inr False
      | Some m \<Rightarrow>
          if \<not> truthy m then Inr False
          else (case py_get m ''retCode'' JNull of
                  Inl e \<Rightarrow> Inl e
                | Inr code \<Rightarrow> Inr (py_eq_zero code)))"

text \<open>
  An async function runs from one suspension to the next without interruption. Each
  such stretch is a function of the state; it ends with the function's return value or
  with the coroutine suspended again. In a stretch that calls the exchange library
  (\<open>orderbook_stream\<close>, \<open>place_order\<close>), \<open>ext\<close> says whether that call returns (True) or
  raises (False).
\<close>

datatype 'r outcome = Returned 'r | Suspended task

text \<open>Lines 77 to 85; an exception is raised again after it is logged.\<close>

definition subscribe_to_orderbook :: "bool \<Rightarrow> world \<Rightarrow> error option \<times> world" where
  "subscribe_to_orderbook ext s =
     (if \<not> is_subscribed s then
        (let s1 = logger Subscribing s
         in if ext then (None, logger Subscribed (s1\<lparr> is_subscribed := True \<rparr>))
            else (Some ExternalError, logger SubscribeError s1))
      else (None, s))"

text \<open>Line 104: \<open>entry_price * (1 + TARGET_PROFIT_PERCENT / 100)\<close>, in floats.\<close>

definition calculate_target_price :: "config \<Rightarrow> real \<Rightarrow> real" where
  "calculate_target_price cfg entry =
     double_mul entry (double_add 1 (double_div (TARGET_PROFIT_PERCENT cfg) 100))"

subsection \<open>open_position\<close>

text \<open>Lines 113 and 114.\<close>

definition open_position_start :: "bool \<Rightarrow> world \<Rightarrow> bool outcome \<times> world" where
  "open_position_start ext s =
     (case subscribe_to_orderbook ext s of
        (Some e, s1) \<Rightarrow> (Returned False, logger (OpenException e) s1)
      | (None, s1) \<Rightarrow> (Suspended OpenSleep, s1))"

text \<open>Lines 117 to 138, up to the wait for the confirmation.\<close>

definition open_position_request :: "bool \<Rightarrow> world \<Rightarrow> bool outcome \<times> world" where
  "open_position_request ext s =
     (let orderbook = orderbook_data s
      in if \<not> price_truthy (bid orderbook) \<or> \<not> price_truthy (ask orderbook)
         then (Returned False, logger NoOrderbookData s)
         else
           (let s1 = s\<lparr> order_response_event := False \<rparr>
            in if \<not> ext then (Returned False, logger (OpenException ExternalError) s1)
               else (Suspended (OpenWait orderbook False),
                     s1\<lparr> orders := orders s1 @ [Buy] \<rparr>)))"

text \<open>Lines 139 to 141.\<close>

definition open_position_timeout :: "world \<Rightarrow> bool \<times> world" where
  "open_position_timeout s = (False, logger OpenTimeout s)"

text \<open>
  Lines 143 to 157, after the wait has returned. \<open>orderbook\<close> is the local of line 117:
  \<open>handle_orderbook\<close> replaces the dict of the bot by a new one, so the local keeps the
  quote it was given. \<open>create_task\<close> adds the monitor to the suspended coroutines.
\<close>

definition open_position_confirm :: "config \<Rightarrow> quote \<Rightarrow> world \<Rightarrow> bool \<times> world" where
  "open_position_confirm cfg orderbook s =
     (case response_ok (order_response s) of
        Inl e \<Rightarrow> (False, logger (OpenException e) s)
      | Inr False \<Rightarrow> (False, logger (OpenError (order_response s)) s)
      | Inr True \<Rightarrow>
     (case order_response s of
        None \<Rightarrow> (False, logger (OpenException TypeError) s)
      | Some m \<Rightarrow>
     (case py_item m ''data'' of
        Inl e \<Rightarrow> (False, logger (OpenException e) s)
      | Inr d \<Rightarrow>
     (case py_item d ''orderId'' of
        Inl e \<Rightarrow> (False, logger (OpenException e) s)
      | Inr oid \<Rightarrow>
     (case ask orderbook of
        None \<Rightarrow> (False, logger (OpenException TypeError) s)
      | Some entry \<Rightarrow>
          (let p = \<lparr> order_id = oid, symbol = SYMBOL cfg, amount = AMOUNT cfg,
                     entry_price = entry,
                     target_price = calculate_target_price cfg entry \<rparr>;
               s1 = logger (OpenedPosition p) (s\<lparr> active_position := Some p \<rparr>)
           in (True, s1\<lparr> tasks := tasks s1 @ [Monitor] \<rparr>)))))))"

subsection \<open>close_position\<close>

text \<open>Lines 203 to 216, up to the wait for the confirmation.\<close>

definition close_position_request :: "bool \<Rightarrow> world \<Rightarrow> bool outcome \<times> world" where
  "close_position_request ext s =
     (let s1 = s\<lparr> order_response_event := False \<rparr>
      in if \<not> ext then (Returned False, logger (CloseException ExternalError) s1)
         else (Suspended (CloseWait False), s1\<lparr> orders := orders s1 @ [Sell] \<rparr>))"

text \<open>Lines 217 to 219.\<close>

definition close_position_timeout :: "world \<Rightarrow> bool \<times> world" where
  "close_position_timeout s = (False, logger CloseTimeout s)"

text \<open>Lines 221 to 227.\<close>

definition close_position_confirm :: "world \<Rightarrow> bool \<times> world" where
  "close_position_confirm s =
     (case response_ok (order_response s) of
        Inl e \<Rightarrow> (False, logger (CloseException e) s)
      | Inr False \<Rightarrow> (False, logger (CloseError (order_response s)) s)
      | Inr True \<Rightarrow>
          (True, (logger (ClosedOk (order_response s)) s)\<lparr> active_position := None \<rparr>))"

subsection \<open>monitor_position\<close>

text \<open>Lines 254 to 256; a failed delivery is caught there and is not modelled.\<close>

definition send_notification :: "notification \<Rightarrow> world \<Rightarrow> world" where
  "send_notification n s = s\<lparr> notifications := notifications s @ [n] \<rparr>"

text \<open>
  Lines 178 to 180: \<open>((bid / entry_price) - 1) * 100\<close>, in floats. Subscripting None
  raises TypeError, and so does dividing None; a zero divisor raises ZeroDivisionError.
\<close>

definition profit_percentage :: "world \<Rightarrow> error + real" where
  "profit_percentage s =
     (case active_position s of
        None \<Rightarrow> Inl TypeError
      | Some p \<Rightarrow>
          (case bid (orderbook_data s) of
             None \<Rightarrow> Inl TypeError
           | Some b \<Rightarrow>
               if entry_price p = 0 then Inl ZeroDivisionError
               else Inr (double_mul (double_sub (double_div b (entry_price p)) 1) 100)))"

text \<open>The message built at lines 182 to 187, which reads \<open>active_position\<close> again.\<close>

definition closed_message :: "real \<Rightarrow> world \<Rightarrow> error + notification" where
  "closed_message profit s =
     (case active_position s of
        None \<Rightarrow> Inl TypeError
      | Some p \<Rightarrow>
          Inr (PositionClosed (symbol p) profit (entry_price p) (target_price p)
                 (bid (orderbook_data s))))"

text \<open>
  Lines 177 to 194, once \<open>close_position\<close> has returned \<open>success\<close>. An exception is
  caught at line 192; either way the monitor then sleeps.
\<close>

definition monitor_after_close :: "bool \<Rightarrow> world \<Rightarrow> world" where
  "monitor_after_close success s =
     (if success then
        (case profit_percentage s of
           Inl e \<Rightarrow> logger (MonitorError e) s
         | Inr profit \<Rightarrow>
             (let s1 = s\<lparr> active_position := None \<rparr>
              in case closed_message profit s1 of
                   Inl e \<Rightarrow> logger (MonitorError e) s1
                 | Inr n \<Rightarrow> logger ClosedNotified (send_notification n s1)))
      else s)"

text \<open>
  One turn of the loop, lines 165 to 176, from the test of the loop condition to the
  next suspension. Comparing None with a float raises TypeError.
\<close>

definition monitor_position_loop :: "bool \<Rightarrow> world \<Rightarrow> task \<times> world" where
  "monitor_position_loop ext s =
     (case active_position s of
        None \<Rightarrow> (Finished, s)
      | Some p \<Rightarrow>
          (let order_book = get_order_book s
           in if \<not> price_truthy (bid order_book)
              then (Monitor, logger MonitorNoOrderbook s)
              else
                (case bid order_book of
                   None \<Rightarrow> (Monitor, logger (MonitorError TypeError) s)
                 | Some current_price \<Rightarrow>
                     if current_price \<ge> target_price p then
                       (case close_position_request ext s of
                          (Returned success, s1) \<Rightarrow> (Monitor, monitor_after_close success s1)
                        | (Suspended t, s1) \<Rightarrow> (t, s1))
                     else (Monitor, s))))"

section \<open>The chat commands\<close>

text \<open>Lines 277 to 299.\<close>

definition status_command :: "world \<Rightarrow> world" where
  "status_command s =
     (case active_position s of
        None \<Rightarrow> answer NoOpenPosition s
      | Some p \<Rightarrow>
          (let order_book = get_order_book s
           in if \<not> price_truthy (bid order_book) then answer CannotGetPrice s
              else
                (case bid order_book of
                   None \<Rightarrow> answer StatusError (logger (StatusCommandError TypeError) s)
                 | Some current_price \<Rightarrow>
                     if entry_price p = 0
                     then answer StatusError (logger (StatusCommandError ZeroDivisionError) s)
                     else answer (CurrentPosition (symbol p) (entry_price p) (target_price p)
                                    current_price
                                    (double_mul
                                       (double_sub (double_div current_price (entry_price p)) 1)
                                       100)) s)))"

text \<open>Lines 306 to 310: the check and the first answer.\<close>

definition trade_command :: "world \<Rightarrow> world" where
  "trade_command s =
     (if active_position s \<noteq> None then answer AlreadyOpen s
      else (let s1 = answer OpeningWait s in s1\<lparr> tasks := tasks s1 @ [TradeAnswer] \<rparr>))"

text \<open>Lines 312 to 324, once \<open>open_position\<close> has returned \<open>success\<close>.\<close>

definition trade_command_result :: "bool \<Rightarrow> world \<Rightarrow> world" where
  "trade_command_result success s =
     (if success then
        (case active_position s of
           None \<Rightarrow> answer TradeError (logger (TradeCommandError TypeError) s)
         | Some p \<Rightarrow> answer (PositionOpened (symbol p) (entry_price p) (target_price p)) s)
      else answer CouldNotOpen s)"

section \<open>The event loop\<close>

definition set_task :: "nat \<Rightarrow> task \<Rightarrow> world \<Rightarrow> world" where
  "set_task i t s = s\<lparr> tasks := (tasks s)[i := t] \<rparr>"

text \<open>The coroutine of a /trade command after one stretch of \<open>open_position\<close>.\<close>

definition trade_resume :: "nat \<Rightarrow> bool outcome \<times> world \<Rightarrow> world" where
  "trade_resume i r =
     (case r of
        (Returned success, s) \<Rightarrow> set_task i Finished (trade_command_result success s)
      | (Suspended t, s) \<Rightarrow> set_task i t s)"

text \<open>The monitor after \<open>close_position\<close> has returned from its wait.\<close>

definition monitor_resume :: "nat \<Rightarrow> bool \<times> world \<Rightarrow> world" where
  "monitor_resume i r = (case r of (success, s) \<Rightarrow> set_task i Monitor (monitor_after_close success s))"

text \<open>
  What can happen next:
  \<^item> \<open>Trade\<close>, \<open>Status\<close>: the operator sends a command;
  \<^item> \<open>Feed message\<close>: the market feed calls \<open>handle_orderbook\<close>;
  \<^item> \<open>Confirmation k message\<close>: the gateway answers the \<open>k\<close>-th order that was placed, by
    calling \<open>handle_order_response\<close>, which does not look at \<open>k\<close>;
  \<^item> \<open>Run i ext\<close>: the event loop resumes coroutine \<open>i\<close>, whose sleep or answer is over or
    whose wait has been woken;
  \<^item> \<open>Timeout i\<close>: the wait of coroutine \<open>i\<close> expires before the event is set.
  An event that cannot happen in the state gives None. The callbacks of the feed and of
  the gateway run between two stretches of the coroutines, never inside one.
\<close>

datatype event = Trade | Status | Feed json | Confirmation nat json | Run nat bool
  | Timeout nat

definition resume :: "config \<Rightarrow> nat \<Rightarrow> bool \<Rightarrow> world \<Rightarrow> world option" where
  "resume cfg i ext s =
     (if i < length (tasks s) then
        (case tasks s ! i of
           TradeAnswer \<Rightarrow> Some (trade_resume i (open_position_start ext s))
         | OpenSleep \<Rightarrow> Some (trade_resume i (open_position_request ext s))
         | OpenWait orderbook woken \<Rightarrow>
             if woken
             then (case open_position_confirm cfg orderbook s of
                     (success, s1) \<Rightarrow> Some (trade_resume i (Returned success, s1)))
             else None
         | Monitor \<Rightarrow>
             (case monitor_position_loop ext s of (t, s1) \<Rightarrow> Some (set_task i t s1))
         | CloseWait woken \<Rightarrow>
             if woken then Some (monitor_resume i (close_position_confirm s)) else None
         | Finished \<Rightarrow> None)
      else None)"

definition expire :: "nat \<Rightarrow> world \<Rightarrow> world option" where
  "expire i s =
     (if i < length (tasks s) then
        (case tasks s ! i of
           OpenWait orderbook woken \<Rightarrow>
             if woken then None
             else (case open_position_timeout s of
                     (success, s1) \<Rightarrow> Some (trade_resume i (Returned success, s1)))
         | CloseWait woken \<Rightarrow>
             if woken then None else Some (monitor_resume i (close_position_timeout s))
         | _ \<Rightarrow> None)
      else None)"

definition step :: "(string \<Rightarrow> real option) \<Rightarrow> config \<Rightarrow> event \<Rightarrow> world \<Rightarrow> world option" where
  "step float_str cfg e s =
     (case e of
        Trade \<Rightarrow> Some (trade_command s)
      | Status \<Rightarrow> Some (status_command s)
      | Feed message \<Rightarrow> Some (handle_orderbook float_str message s)
      | Confirmation k message \<Rightarrow>
          if k < length (orders s) then Some (handle_order_response message s) else None
      | Run i ext \<Rightarrow> resume cfg i ext s
      | Timeout i \<Rightarrow> expire i s)"

fun run :: "(string \<Rightarrow> real option) \<Rightarrow> config \<Rightarrow> event list \<Rightarrow> world \<Rightarrow> world option" where
  "run float_str cfg [] s = Some s"
| "run float_str cfg (e # es) s =
     (case step float_str cfg e s of
        None \<Rightarrow> None
      | Some s1 \<Rightarrow> run float_str cfg es s1)"

text \<open>
  Which coroutine an event resumes, and two things a resumed \<open>open_position\<close> can do:
  \<^item> \<open>requests (Some s) e q\<close>: in the state \<open>s\<close>, with \<open>q\<close> in the cache, the event \<open>e\<close>
    resumes the call at the end of its sleep, and the call places its buy order and
    begins to wait with \<open>q\<close> as its local \<open>orderbook\<close>;
  \<^item> \<open>records cfg (Some s) e q p\<close>: in the state \<open>s\<close> the event \<open>e\<close> resumes the call, whose
    wait with the local \<open>orderbook = q\<close> has been woken, and the call returns True
    having recorded the position \<open>p\<close>.
  \<open>requested_by es i q\<close>: in the run \<open>es\<close>, coroutine \<open>i\<close> has made such a request.
  \<open>opened_with es q p\<close>: in the run \<open>es\<close>, one coroutine has made such a request and has
  later recorded \<open>p\<close> from it.
\<close>

fun coroutine :: "event \<Rightarrow> nat option" where
  "coroutine (Run i ext) = Some i"
| "coroutine (Timeout i) = Some i"
| "coroutine _ = None"

fun requests :: "world option \<Rightarrow> event \<Rightarrow> quote \<Rightarrow> bool" where
  "requests (Some s) (Run i ext) q =
     (ext \<and> i < length (tasks s) \<and> tasks s ! i = OpenSleep \<and> orderbook_data s = q
      \<and> fst (open_position_request ext s) = Suspended (OpenWait q False))"
| "requests _ _ q = False"

fun records :: "config \<Rightarrow> world option \<Rightarrow> event \<Rightarrow> quote \<Rightarrow> position \<Rightarrow> bool" where
  "records cfg (Some s) (Run i ext) q p =
     (i < length (tasks s) \<and> tasks s ! i = OpenWait q True
      \<and> fst (open_position_confirm cfg q s)
      \<and> active_position (snd (open_position_confirm cfg q s)) = Some p)"
| "records cfg _ _ q p = False"

definition requested_by :: "(string \<Rightarrow> real option) \<Rightarrow> config \<Rightarrow> event list \<Rightarrow> nat \<Rightarrow> quote \<Rightarrow> bool" where
  "requested_by float_str cfg es i q =
     (\<exists>n < length es. coroutine (es ! n) = Some i
        \<and> requests (run float_str cfg (take n es) init) (es ! n) q)"

definition opened_with :: "(string \<Rightarrow> real option) \<Rightarrow> config \<Rightarrow> event list \<Rightarrow> quote \<Rightarrow> position \<Rightarrow> bool" where
  "opened_with float_str cfg es q p =
     (\<exists>m < length es. \<exists>n < m.
        coroutine (es ! n) = coroutine (es ! m)
        \<and> requests (run float_str cfg (take n es) init) (es ! n) q
        \<and> records cfg (run float_str cfg (take m es) init) (es ! m) q p)"

section \<open>Concrete inputs\<close>

definition example_config :: config where
  "example_config = \<lparr> SYMBOL = ''BTCUSDT'', TARGET_PROFIT_PERCENT = 1, AMOUNT = 1 \<rparr>"

text \<open>A feed message with one bid level and one ask level, prices as strings.\<close>

definition book_message :: "string \<Rightarrow> string \<Rightarrow> json" where
  "book_message b a =
     JDict [(''data'', JDict [(''b'', JList [JList [JStr b, JStr ''1'']]),
                              (''a'', JList [JList [JStr a, JStr ''1'']])])]"

definition filled_message :: "string \<Rightarrow> json" where
  "filled_message oid =
     JDict [(''retCode'', JNum 0), (''data'', JDict [(''orderId'', JStr oid)])]"

definition rejected_message :: json where
  "rejected_message = JDict [(''retCode'', JNum 10001), (''retMsg'', JStr ''rejected'')]"

text \<open>The state after a list of events, from the initial state, with the example values.\<close>

definition after :: "event list \<Rightarrow> world" where
  "after es = (case run float_digits example_config es init of None \<Rightarrow> init | Some s \<Rightarrow> s)"

text \<open>
  The quote is 100/101, the operator sends /trade and the buy order goes out; then the
  gateway fills it as order X; then the quote moves to 103/104 and the monitor sends the
  sell order.
\<close>

definition until_buy_sent :: "event list" where
  "until_buy_sent = [Feed (book_message ''100'' ''101''), Trade, Run 0 True, Run 0 True]"

definition until_open :: "event list" where
  "until_open = until_buy_sent @ [Confirmation 0 (filled_message ''X''), Run 0 True]"

definition until_sell_sent :: "event list" where
  "until_sell_sent = until_open @ [Feed (book_message ''103'' ''104''), Run 1 True]"

text \<open>The gateway rejects the buy order; the gateway rejects the sell order.\<close>

definition until_buy_rejected :: "event list" where
  "until_buy_rejected = until_buy_sent @ [Confirmation 0 rejected_message]"

definition until_sell_rejected :: "event list" where
  "until_sell_rejected = until_sell_sent @ [Confirmation 1 rejected_message]"

definition example_position :: position where
  "example_position = \<lparr> order_id = JStr ''X'', symbol = ''BTCUSDT'', amount = 1,
        entry_price = 101, target_price = 7178315593563505 / 70368744177664 \<rparr>"

definition empty_bids_message :: json where
  "empty_bids_message =
     JDict [(''data'', JDict [(''b'', JList []),
                              (''a'', JList [JList [JStr ''102'', JStr ''1'']])])]"

text \<open>Then the gateway fills the sell order as order Y and the monitor goes on.\<close>

definition until_closed :: "event list" where
  "until_closed = until_sell_sent @ [Confirmation 1 (filled_message ''Y''), Run 1 True]"

text \<open>As \<open>until_open\<close>, but the quote moves to 105/106 while the buy is not yet confirmed.\<close>

definition until_open_quote_moved :: "event list" where
  "until_open_quote_moved =
     until_buy_sent @ [Feed (book_message ''105'' ''106''),
                       Confirmation 0 (filled_message ''X''), Run 0 True]"

text \<open>
  A target of ten per cent, and a run that opens a position at the ask 100 (the quote is
  99/100, the gateway fills the buy as order X).
\<close>

definition ten_percent_config :: config where
  "ten_percent_config = \<lparr> SYMBOL = ''BTCUSDT'', TARGET_PROFIT_PERCENT = 10, AMOUNT = 1 \<rparr>"

definition after_at_ten_percent :: "event list \<Rightarrow> world" where
  "after_at_ten_percent es =
     (case run float_digits ten_percent_config es init of None \<Rightarrow> init | Some s \<Rightarrow> s)"

definition until_open_at_100 :: "event list" where
  "until_open_at_100 =
     [Feed (book_message ''99'' ''100''), Trade, Run 0 True, Run 0 True,
      Confirmation 0 (filled_message ''X''), Run 0 True]"

section \<open>Unfolding the model\<close>

text \<open>The doubles that the example runs compute.\<close>

lemma one_percent: "double_add 1 (double_div 1 100) = 4548635623644201 / 4503599627370496"
  by code_simp

lemma target_of_101:
  assumes "TARGET_PROFIT_PERCENT cfg = 1"
  shows "calculate_target_price cfg 101 = 7178315593563505 / 70368744177664"
  unfolding calculate_target_price_def assms one_percent by code_simp

lemma target_of_103:
  assumes "TARGET_PROFIT_PERCENT cfg = 1"
  shows "calculate_target_price cfg 103 = 3660230228401193 / 35184372088832"
  unfolding calculate_target_price_def assms one_percent by code_simp

lemma target_of_100_at_ten_percent:
  assumes "TARGET_PROFIT_PERCENT cfg = 10"
  shows "calculate_target_price cfg 100 = 7740561859543041 / 70368744177664"
  unfolding calculate_target_price_def assms by code_simp

lemma profit_of_103_from_101:
  "double_mul (double_sub (double_div 103 101) 1) 100 = 278688095753125 / 140737488355328"
  by code_simp

lemmas fixture_defs = example_config_def book_message_def filled_message_def
  rejected_message_def float_digits_def is_digit_def digit_val_def after_def
  until_buy_sent_def until_open_def until_sell_sent_def until_closed_def
  until_open_quote_moved_def until_buy_rejected_def until_sell_rejected_def
  ten_percent_config_def after_at_ten_percent_def until_open_at_100_def

lemmas model_defs = init_def logger_def answer_def price_truthy_def parse_orderbook_def
  handle_orderbook_def get_order_book_def handle_order_response_def response_ok_def
  subscribe_to_orderbook_def target_of_101 target_of_103 profit_of_103_from_101
  open_position_start_def
  open_position_request_def open_position_timeout_def open_position_confirm_def
  close_position_request_def close_position_timeout_def close_position_confirm_def
  send_notification_def profit_percentage_def closed_message_def monitor_after_close_def
  monitor_position_loop_def status_command_def trade_command_def trade_command_result_def
  set_task_def trade_resume_def monitor_resume_def resume_def expire_def step_def Let_def

lemma run_snoc:
  "run float_str cfg (es @ [e]) s0 =
     (case run float_str cfg es s0 of None \<Rightarrow> None | Some s \<Rightarrow> step float_str cfg e s)"
  by (induction es arbitrary: s0) (simp_all split: option.splits)

section \<open>Updates that are stored\<close>

lemma parse_orderbook_prices:
  assumes "py_get message ''data'' (JDict []) = Inr d"
    and "py_get d ''b'' JNull = Inr (JList (JList (pb # rb) # bs))"
    and "py_get d ''a'' JNull = Inr (JList (JList (pa # ra) # as))"
    and "py_float float_str pb = Inr b"
    and "py_float float_str pa = Inr a"
  shows "parse_orderbook float_str message = Prices b a"
  using assms by (simp add: parse_orderbook_def)

lemma handle_orderbook_cache:
  "orderbook_data (handle_orderbook float_str message s) =
     (case parse_orderbook float_str message of
        Prices b a \<Rightarrow> \<lparr> bid = Some b, ask = Some a \<rparr>
      | _ \<Rightarrow> orderbook_data s)"
  by (simp add: handle_orderbook_def logger_def Let_def split: parsed.splits)

text \<open>
  C6. The feed delivers a message whose first bid level has the price \<open>b\<close> and whose first
  ask level has the price \<open>a\<close>, both positive. After \<open>handle_orderbook\<close> the cache read
  by \<open>get_order_book\<close> is exactly that pair. And whatever the message, the cache
  afterwards is the old quote or both prices of the message, never one new price beside
  an old one.
\<close>

theorem quote_update_then_read:
  assumes "py_get message ''data'' (JDict []) = Inr d"
    and "py_get d ''b'' JNull = Inr (JList (JList (pb # rb) # bs))"
    and "py_get d ''a'' JNull = Inr (JList (JList (pa # ra) # as))"
    and "py_float float_str pb = Inr b"
    and "py_float float_str pa = Inr a"
    and "0 < b" and "0 < a"
  shows "get_order_book (handle_orderbook float_str message s) = \<lparr> bid = Some b, ask = Some a \<rparr>
       \<and> (\<forall>m. get_order_book (handle_orderbook float_str m s) = get_order_book s
              \<or> (\<exists>b' a'. parse_orderbook float_str m = Prices b' a'
                    \<and> get_order_book (handle_orderbook float_str m s)
                        = \<lparr> bid = Some b', ask = Some a' \<rparr>))"
proof -
  have "parse_orderbook float_str message = Prices b a"
    using assms(1-5) by (rule parse_orderbook_prices)
  then have first: "get_order_book (handle_orderbook float_str message s)
      = \<lparr> bid = Some b, ask = Some a \<rparr>"
    by (simp add: get_order_book_def handle_orderbook_cache)
  have second: "get_order_book (handle_orderbook float_str m s) = get_order_book s
              \<or> (\<exists>b' a'. parse_orderbook float_str m = Prices b' a'
                    \<and> get_order_book (handle_orderbook float_str m s)
                        = \<lparr> bid = Some b', ask = Some a' \<rparr>)" for m
    by (cases "parse_orderbook float_str m")
       (simp_all add: get_order_book_def handle_orderbook_cache)
  from first second show ?thesis by blast
qed

theorem quote_update_then_read_witness:
  "(0::real) < 100 \<and> (0::real) < 101
   \<and> get_order_book (handle_orderbook float_digits (book_message ''100'' ''101'') init)
       = \<lparr> bid = Some 100, ask = Some 101 \<rparr>"
proof -
  let ?d = "JDict [(''b'', JList [JList [JStr ''100'', JStr ''1'']]),
                   (''a'', JList [JList [JStr ''101'', JStr ''1'']])]"
  have f100: "py_float float_digits (JStr ''100'') = Inr 100"
    by (simp add: float_digits_def is_digit_def digit_val_def)
  have f101: "py_float float_digits (JStr ''101'') = Inr 101"
    by (simp add: float_digits_def is_digit_def digit_val_def)
  have d: "py_get (book_message ''100'' ''101'') ''data'' (JDict []) = Inr ?d"
    by (simp add: book_message_def)
  have b: "py_get ?d ''b'' JNull = Inr (JList (JList (JStr ''100'' # [JStr ''1'']) # []))"
    by simp
  have a: "py_get ?d ''a'' JNull = Inr (JList (JList (JStr ''101'' # [JStr ''1'']) # []))"
    by simp
  have pos: "(0::real) < 100" "(0::real) < 101"
    by simp_all
  have "get_order_book (handle_orderbook float_digits (book_message ''100'' ''101'') init)
          = \<lparr> bid = Some 100, ask = Some 101 \<rparr>"
    using quote_update_then_read [OF d b a f100 f101 pos, of init] by (rule conjunct1)
  with pos show ?thesis by (intro conjI)
qed

section \<open>Updates that are not stored\<close>

text \<open>
  C5 as it is stated does not hold: \<open>handle_orderbook\<close> tests that the bid and ask
  lists are there and not empty, and never compares a price with zero. With the quote
  100/101 in the cache, a message with the bid 0 and the ask 102 replaces it.
\<close>

theorem zero_bid_overwrites_quote:
  "get_order_book (after [Feed (book_message ''100'' ''101'')])
     = \<lparr> bid = Some 100, ask = Some 101 \<rparr>
   \<and> get_order_book (after [Feed (book_message ''100'' ''101''), Feed (book_message ''0'' ''102'')])
     = \<lparr> bid = Some 0, ask = Some 102 \<rparr>"
  by (simp add: model_defs fixture_defs)

text \<open>
  C5, amended. When the bid list or the ask list of the message is missing or empty
  (or is any other value that Python takes as false), \<open>handle_orderbook\<close> logs a warning
  and leaves the bot as it was, the cached quote included. And for every message the
  update is all or nothing: either the bot is unchanged but for one log line, or the
  cache holds both prices of the message.
\<close>

theorem incomplete_update_keeps_quote:
  assumes "py_get message ''data'' (JDict []) = Inr d"
    and "py_get d ''b'' JNull = Inr b"
    and "py_get d ''a'' JNull = Inr a"
    and "\<not> truthy b \<or> \<not> truthy a"
  shows "handle_orderbook float_str message s = logger IncompleteOrderbook s
       \<and> get_order_book (handle_orderbook float_str message s) = get_order_book s
       \<and> (\<forall>m. (\<exists>l. handle_orderbook float_str m s = logger l s)
              \<or> (\<exists>b' a'. parse_orderbook float_str m = Prices b' a'
                    \<and> get_order_book (handle_orderbook float_str m s)
                        = \<lparr> bid = Some b', ask = Some a' \<rparr>))"
proof -
  have inc: "parse_orderbook float_str message = Incomplete"
    using assms by (auto simp add: parse_orderbook_def)
  then have first: "handle_orderbook float_str message s = logger IncompleteOrderbook s"
    by (simp add: handle_orderbook_def)
  then have second: "get_order_book (handle_orderbook float_str message s) = get_order_book s"
    by (simp add: get_order_book_def logger_def)
  have third: "(\<exists>l. handle_orderbook float_str m s = logger l s)
              \<or> (\<exists>b' a'. parse_orderbook float_str m = Prices b' a'
                    \<and> get_order_book (handle_orderbook float_str m s)
                        = \<lparr> bid = Some b', ask = Some a' \<rparr>)" for m
  proof (cases "parse_orderbook float_str m")
    case Incomplete
    then have "handle_orderbook float_str m s = logger IncompleteOrderbook s"
      by (simp add: handle_orderbook_def)
    then show ?thesis by blast
  next
    case (Raised e)
    then have "handle_orderbook float_str m s = logger (HandleOrderbookError e) s"
      by (simp add: handle_orderbook_def)
    then show ?thesis by blast
  next
    case (Prices b' a')
    then show ?thesis
      by (simp add: get_order_book_def handle_orderbook_cache)
  qed
  from first second third show ?thesis by blast
qed

theorem incomplete_update_keeps_quote_witness:
  "\<not> truthy (JList [])
   \<and> get_order_book (after until_buy_sent) = \<lparr> bid = Some 100, ask = Some 101 \<rparr>
   \<and> get_order_book (handle_orderbook float_digits empty_bids_message (after until_buy_sent))
       = \<lparr> bid = Some 100, ask = Some 101 \<rparr>"
proof -
  let ?d = "JDict [(''b'', JList []), (''a'', JList [JList [JStr ''102'', JStr ''1'']])]"
  have d: "py_get empty_bids_message ''data'' (JDict []) = Inr ?d"
    by (simp add: empty_bids_message_def)
  have b: "py_get ?d ''b'' JNull = Inr (JList [])"
    by simp
  have a: "py_get ?d ''a'' JNull = Inr (JList [JList [JStr ''102'', JStr ''1'']])"
    by simp
  have falsy: "\<not> truthy (JList [])"
    by simp
  then have either: "\<not> truthy (JList []) \<or> \<not> truthy (JList [JList [JStr ''102'', JStr ''1'']])"
    by (rule disjI1)
  have before: "get_order_book (after until_buy_sent) = \<lparr> bid = Some 100, ask = Some 101 \<rparr>"
    by (simp add: model_defs fixture_defs)
  have "get_order_book (handle_orderbook float_digits empty_bids_message (after until_buy_sent))
          = get_order_book (after until_buy_sent)"
    using incomplete_update_keeps_quote [OF d b a either, of float_digits "after until_buy_sent"]
    by blast
  with falsy before show ?thesis by simp
qed

section \<open>Zero prices\<close>

text \<open>
  C10 as it is stated does not hold for an ask of 0: \<open>status_command\<close> and the monitor
  read the bid only. With a position open at 101 and the quote 103/0 in the cache,
  /status reports the position at the current price 103, and the monitor compares 103
  with the target and sends the sell order.
\<close>

theorem zero_ask_not_read_by_status_and_monitor:
  "orderbook_data (after (until_open @ [Feed (book_message ''103'' ''0'')]))
     = \<lparr> bid = Some 103, ask = Some 0 \<rparr>
   \<and> replies (after (until_open @ [Feed (book_message ''103'' ''0''), Status]))
     = [OpeningWait, PositionOpened ''BTCUSDT'' 101 (7178315593563505 / 70368744177664),
        CurrentPosition ''BTCUSDT'' 101 (7178315593563505 / 70368744177664) 103 (278688095753125 / 140737488355328)]
   \<and> orders (after (until_open @ [Feed (book_message ''103'' ''0''), Status, Run 1 True]))
     = [Buy, Sell]"
  by (simp add: model_defs fixture_defs)

text \<open>
  C10, amended. A price of 0 in the cache is read as an unset price (\<open>z\<close> is either):
  \<open>open_position\<close> returns False without placing an order when the bid or the ask is
  so; with a position recorded, \<open>status_command\<close> answers that the price cannot be got
  and the monitor logs, places no order and sleeps before it tests again, when the bid
  is so.
\<close>

theorem zero_price_read_as_unset:
  assumes "z = None \<or> z = Some 0"
  shows "(bid (orderbook_data s) = z \<or> ask (orderbook_data s) = z \<longrightarrow>
            open_position_request ext s = (Returned False, logger NoOrderbookData s)
          \<and> orders (logger NoOrderbookData s) = orders s)
       \<and> (bid (orderbook_data s) = z \<and> active_position s = Some p \<longrightarrow>
            status_command s = answer CannotGetPrice s
          \<and> monitor_position_loop ext s = (Monitor, logger MonitorNoOrderbook s)
          \<and> orders (logger MonitorNoOrderbook s) = orders s)"
  using assms
  by (auto simp add: open_position_request_def status_command_def monitor_position_loop_def
        get_order_book_def price_truthy_def logger_def Let_def)

theorem zero_price_read_as_unset_witness:
  "bid (orderbook_data (after (until_open @ [Feed (book_message ''0'' ''104'')]))) = Some 0
   \<and> active_position (after (until_open @ [Feed (book_message ''0'' ''104'')]))
       = Some example_position
   \<and> fst (open_position_request True (after (until_open @ [Feed (book_message ''0'' ''104'')])))
       = Returned False
   \<and> replies (status_command (after (until_open @ [Feed (book_message ''0'' ''104'')])))
       = [OpeningWait, PositionOpened ''BTCUSDT'' 101 (7178315593563505 / 70368744177664), CannotGetPrice]
   \<and> fst (monitor_position_loop True (after (until_open @ [Feed (book_message ''0'' ''104'')])))
       = Monitor"
proof -
  let ?s = "after (until_open @ [Feed (book_message ''0'' ''104'')])"
  have z: "Some (0::real) = None \<or> Some (0::real) = Some 0"
    by simp
  have b: "bid (orderbook_data ?s) = Some 0"
    by (simp add: model_defs fixture_defs)
  have p: "active_position ?s = Some example_position"
    by (simp add: model_defs fixture_defs example_position_def)
  have r: "replies ?s = [OpeningWait, PositionOpened ''BTCUSDT'' 101 (7178315593563505 / 70368744177664)]"
    by (simp add: model_defs fixture_defs)
  note inst = zero_price_read_as_unset [OF z, of ?s True example_position]
  from inst b have o: "open_position_request True ?s = (Returned False, logger NoOrderbookData ?s)"
    by blast
  from inst b p have st: "status_command ?s = answer CannotGetPrice ?s"
    by blast
  from inst b p have m: "monitor_position_loop True ?s = (Monitor, logger MonitorNoOrderbook ?s)"
    by blast
  have "fst (open_position_request True ?s) = Returned False"
    by (simp add: o)
  moreover have "replies (status_command ?s)
       = [OpeningWait, PositionOpened ''BTCUSDT'' 101 (7178315593563505 / 70368744177664), CannotGetPrice]"
    by (simp add: st answer_def r)
  moreover have "fst (monitor_position_loop True ?s) = Monitor"
    by (simp add: m)
  ultimately show ?thesis using b p by (intro conjI)
qed

section \<open>Opening a position\<close>

text \<open>
  C7. A call of \<open>open_position\<close> is waiting for its confirmation. If the wait expires,
  or if the confirmation that ends it is not a success, the call returns False:
  \<open>active_position\<close> is what it was (absent stays absent), no order is added, no
  monitor is started, the coroutine is over and the operator is told that the position
  could not be opened.
\<close>

theorem failed_open_creates_no_position:
  assumes "i < length (tasks s)"
    and "tasks s ! i = OpenWait orderbook woken"
    and "woken \<longrightarrow> response_ok (order_response s) \<noteq> Inr True"
  shows "\<exists>s'. (if woken then resume cfg i ext s else expire i s) = Some s'
            \<and> active_position s' = active_position s
            \<and> tasks s' = (tasks s)[i := Finished]
            \<and> orders s' = orders s
            \<and> replies s' = replies s @ [CouldNotOpen]"
  using assms
  by (cases woken)
     (auto simp add: resume_def expire_def open_position_confirm_def open_position_timeout_def
        trade_resume_def trade_command_result_def set_task_def answer_def logger_def
        split: sum.splits bool.splits)

theorem failed_open_creates_no_position_witness:
  "tasks (after until_buy_sent) ! 0 = OpenWait \<lparr> bid = Some 100, ask = Some 101 \<rparr> False
   \<and> active_position (after until_buy_sent) = None
   \<and> (\<exists>s'. expire 0 (after until_buy_sent) = Some s'
          \<and> active_position s' = None
          \<and> tasks s' = [Finished]
          \<and> orders s' = [Buy]
          \<and> replies s' = [OpeningWait, CouldNotOpen])
   \<and> tasks (after until_buy_rejected) ! 0
       = OpenWait \<lparr> bid = Some 100, ask = Some 101 \<rparr> True
   \<and> response_ok (order_response (after until_buy_rejected))
       = Inr False
   \<and> (\<exists>s'. resume example_config 0 True
               (after until_buy_rejected) = Some s'
          \<and> active_position s' = None
          \<and> tasks s' = [Finished]
          \<and> orders s' = [Buy]
          \<and> replies s' = [OpeningWait, CouldNotOpen])"
proof -
  let ?s = "after until_buy_sent"
  let ?r = "after until_buy_rejected"
  let ?q = "\<lparr> bid = Some 100, ask = Some (101::real) \<rparr>"
  have l: "0 < length (tasks ?s)" "0 < length (tasks ?r)"
    by (simp_all add: model_defs fixture_defs)
  have t: "tasks ?s ! 0 = OpenWait ?q False"
    by (simp add: model_defs fixture_defs)
  have tr: "tasks ?r ! 0 = OpenWait ?q True"
    by (simp add: model_defs fixture_defs)
  have rej: "response_ok (order_response ?r) = Inr False"
    by (simp add: model_defs fixture_defs)
  then have rr: "True \<longrightarrow> response_ok (order_response ?r) \<noteq> Inr True"
    by simp
  have before:
    "active_position ?s = None" "tasks ?s = [OpenWait ?q False]"
    "orders ?s = [Buy]" "replies ?s = [OpeningWait]"
    "active_position ?r = None" "tasks ?r = [OpenWait ?q True]"
    "orders ?r = [Buy]" "replies ?r = [OpeningWait]"
    by (simp_all add: model_defs fixture_defs)
  have "\<exists>s'. expire 0 ?s = Some s'
            \<and> active_position s' = active_position ?s
            \<and> tasks s' = (tasks ?s)[0 := Finished]
            \<and> orders s' = orders ?s
            \<and> replies s' = replies ?s @ [CouldNotOpen]"
    using failed_open_creates_no_position [OF l(1) t, of example_config True] by simp
  then have timed_out: "\<exists>s'. expire 0 ?s = Some s'
          \<and> active_position s' = None
          \<and> tasks s' = [Finished]
          \<and> orders s' = [Buy]
          \<and> replies s' = [OpeningWait, CouldNotOpen]"
    by (simp add: before)
  have "\<exists>s'. resume example_config 0 True ?r = Some s'
            \<and> active_position s' = active_position ?r
            \<and> tasks s' = (tasks ?r)[0 := Finished]
            \<and> orders s' = orders ?r
            \<and> replies s' = replies ?r @ [CouldNotOpen]"
    using failed_open_creates_no_position [OF l(2) tr rr, of example_config True] by simp
  then have rejected: "\<exists>s'. resume example_config 0 True ?r = Some s'
          \<and> active_position s' = None
          \<and> tasks s' = [Finished]
          \<and> orders s' = [Buy]
          \<and> replies s' = [OpeningWait, CouldNotOpen]"
    by (simp add: before)
  from t before(1) timed_out tr rej rejected show ?thesis by (intro conjI)
qed

section \<open>The target price\<close>

lemma requested_by_snoc:
  assumes "requested_by float_str cfg es i q"
  shows "requested_by float_str cfg (es @ [e]) i q"
proof -
  from assms obtain n where n: "n < length es"
    and body: "coroutine (es ! n) = Some i"
      "requests (run float_str cfg (take n es) init) (es ! n) q"
    unfolding requested_by_def by blast
  from n body have "n < length (es @ [e]) \<and> coroutine ((es @ [e]) ! n) = Some i
      \<and> requests (run float_str cfg (take n (es @ [e])) init) ((es @ [e]) ! n) q"
    by (simp add: nth_append)
  then show ?thesis
    unfolding requested_by_def by (rule exI)
qed

lemma requested_by_last:
  assumes "run float_str cfg es init = Some s"
    and "i < length (tasks s)" and "tasks s ! i = OpenSleep"
    and "fst (open_position_request True s) = Suspended (OpenWait q False)"
    and "orderbook_data s = q"
  shows "requested_by float_str cfg (es @ [Run i True]) i q"
proof -
  from assms have "length es < length (es @ [Run i True])
      \<and> coroutine ((es @ [Run i True]) ! length es) = Some i
      \<and> requests (run float_str cfg (take (length es) (es @ [Run i True])) init)
           ((es @ [Run i True]) ! length es) q"
    by simp
  then show ?thesis
    unfolding requested_by_def by (rule exI)
qed

lemma opened_with_snoc:
  assumes "opened_with float_str cfg es q p"
  shows "opened_with float_str cfg (es @ [e]) q p"
proof -
  from assms obtain m n where m: "m < length es" and n: "n < m"
    and body: "coroutine (es ! n) = coroutine (es ! m)"
      "requests (run float_str cfg (take n es) init) (es ! n) q"
      "records cfg (run float_str cfg (take m es) init) (es ! m) q p"
    unfolding opened_with_def by blast
  from m n body have "m < length (es @ [e]) \<and> (\<exists>n < m.
        coroutine ((es @ [e]) ! n) = coroutine ((es @ [e]) ! m)
        \<and> requests (run float_str cfg (take n (es @ [e])) init) ((es @ [e]) ! n) q
        \<and> records cfg (run float_str cfg (take m (es @ [e])) init) ((es @ [e]) ! m) q p)"
    by (auto simp add: nth_append intro!: exI [of _ n])
  then show ?thesis
    unfolding opened_with_def by (rule exI)
qed

lemma opened_with_last:
  assumes "run float_str cfg es init = Some s"
    and "requested_by float_str cfg es i q"
    and "records cfg (Some s) (Run i ext) q p"
  shows "opened_with float_str cfg (es @ [Run i ext]) q p"
proof -
  from assms(2) obtain n where n: "n < length es"
    and body: "coroutine (es ! n) = Some i"
      "requests (run float_str cfg (take n es) init) (es ! n) q"
    unfolding requested_by_def by blast
  from n body assms(1,3) have "n < length es
        \<and> coroutine ((es @ [Run i ext]) ! n) = coroutine ((es @ [Run i ext]) ! length es)
        \<and> requests (run float_str cfg (take n (es @ [Run i ext])) init) ((es @ [Run i ext]) ! n) q
        \<and> records cfg (run float_str cfg (take (length es) (es @ [Run i ext])) init)
             ((es @ [Run i ext]) ! length es) q p"
    by (simp add: nth_append)
  then have "length es < length (es @ [Run i ext]) \<and> (\<exists>n < length es.
        coroutine ((es @ [Run i ext]) ! n) = coroutine ((es @ [Run i ext]) ! length es)
        \<and> requests (run float_str cfg (take n (es @ [Run i ext])) init) ((es @ [Run i ext]) ! n) q
        \<and> records cfg (run float_str cfg (take (length es) (es @ [Run i ext])) init)
             ((es @ [Run i ext]) ! length es) q p)"
    by auto
  then show ?thesis
    unfolding opened_with_def by (rule exI)
qed

lemma position_after_step:
  assumes "step float_str cfg e s = Some s'"
    and "active_position s' = Some p'"
  shows "active_position s = Some p'
       \<or> (\<exists>i ext q. e = Run i ext \<and> i < length (tasks s) \<and> tasks s ! i = OpenWait q True
             \<and> ask q = Some (entry_price p')
             \<and> target_price p' = calculate_target_price cfg (entry_price p')
             \<and> records cfg (Some s) e q p')"
proof (cases e)
  case Trade
  with assms show ?thesis
    by (auto simp add: step_def trade_command_def answer_def Let_def split: if_splits)
next
  case Status
  with assms show ?thesis
    by (auto simp add: step_def status_command_def answer_def logger_def get_order_book_def Let_def
          split: if_splits option.splits)
next
  case (Feed m)
  with assms show ?thesis
    by (auto simp add: step_def handle_orderbook_def logger_def Let_def split: parsed.splits)
next
  case (Confirmation k m)
  with assms show ?thesis
    by (auto simp add: step_def handle_order_response_def split: if_splits)
next
  case (Timeout i)
  with assms show ?thesis
    by (auto simp add: step_def expire_def open_position_timeout_def close_position_timeout_def
          trade_resume_def trade_command_result_def monitor_resume_def monitor_after_close_def
          set_task_def answer_def logger_def
          split: if_splits task.splits)
next
  case (Run i ext)
  show ?thesis
  proof (cases "i < length (tasks s)")
    case False
    with assms Run show ?thesis by (simp add: step_def resume_def)
  next
    case True
    show ?thesis
    proof (cases "tasks s ! i")
      case TradeAnswer
      with assms Run True show ?thesis
        by (auto simp add: step_def resume_def open_position_start_def subscribe_to_orderbook_def
              trade_resume_def trade_command_result_def set_task_def answer_def logger_def Let_def
              split: if_splits)
    next
      case OpenSleep
      with assms Run True show ?thesis
        by (auto simp add: step_def resume_def open_position_request_def
              trade_resume_def trade_command_result_def set_task_def answer_def logger_def Let_def
              split: if_splits)
    next
      case (OpenWait q w)
      with assms Run True show ?thesis
        by (auto simp add: step_def resume_def open_position_confirm_def
              trade_resume_def trade_command_result_def set_task_def answer_def logger_def Let_def
              split: if_splits sum.splits bool.splits option.splits)
    next
      case Monitor
      with assms Run True show ?thesis
        by (auto simp add: step_def resume_def monitor_position_loop_def close_position_request_def
              monitor_after_close_def get_order_book_def set_task_def logger_def Let_def
              split: if_splits option.splits)
    next
      case (CloseWait w)
      with assms Run True show ?thesis
        by (auto simp add: step_def resume_def close_position_confirm_def monitor_resume_def
              monitor_after_close_def profit_percentage_def closed_message_def
              send_notification_def set_task_def logger_def Let_def
              split: if_splits sum.splits bool.splits option.splits)
    next
      case Finished
      with assms Run True show ?thesis by (simp add: step_def resume_def)
    qed
  qed
qed

lemma wake_OpenWait:
  "wake t = OpenWait q w \<Longrightarrow> \<exists>w0. t = OpenWait q w0"
  by (cases t) simp_all

lemma wait_after_step:
  assumes "step float_str cfg e s = Some s'"
    and "i < length (tasks s')"
    and "tasks s' ! i = OpenWait q w"
  shows "(i < length (tasks s) \<and> (\<exists>w0. tasks s ! i = OpenWait q w0))
       \<or> (e = Run i True \<and> i < length (tasks s) \<and> tasks s ! i = OpenSleep
            \<and> orderbook_data s = q
            \<and> fst (open_position_request True s) = Suspended (OpenWait q False))"
proof (cases e)
  case Trade
  with assms show ?thesis
    by (auto simp add: step_def trade_command_def answer_def Let_def nth_append
          split: if_splits)
next
  case Status
  with assms show ?thesis
    by (auto simp add: step_def status_command_def answer_def logger_def get_order_book_def Let_def
          split: if_splits option.splits)
next
  case (Feed m)
  with assms show ?thesis
    by (auto simp add: step_def handle_orderbook_def logger_def Let_def split: parsed.splits)
next
  case (Confirmation k m)
  with assms show ?thesis
    by (auto simp add: step_def handle_order_response_def split: if_splits dest: wake_OpenWait)
next
  case (Timeout j)
  with assms show ?thesis
    by (auto simp add: step_def expire_def open_position_timeout_def close_position_timeout_def
          trade_resume_def trade_command_result_def monitor_resume_def monitor_after_close_def
          set_task_def answer_def logger_def nth_list_update
          split: if_splits task.splits)
next
  case (Run j ext)
  show ?thesis
  proof (cases "j < length (tasks s)")
    case False
    with assms Run show ?thesis by (simp add: step_def resume_def)
  next
    case True
    show ?thesis
    proof (cases "tasks s ! j")
      case TradeAnswer
      with assms Run True show ?thesis
        by (auto simp add: step_def resume_def open_position_start_def subscribe_to_orderbook_def
              trade_resume_def trade_command_result_def set_task_def answer_def logger_def Let_def
              nth_list_update
              split: if_splits)
    next
      case OpenSleep
      with assms Run True show ?thesis
        by (auto simp add: step_def resume_def open_position_request_def
              trade_resume_def trade_command_result_def set_task_def answer_def logger_def Let_def
              nth_list_update
              split: if_splits)
    next
      case (OpenWait q0 w0)
      with assms Run True show ?thesis
        by (auto simp add: step_def resume_def open_position_confirm_def
              trade_resume_def trade_command_result_def set_task_def answer_def logger_def Let_def
              nth_list_update nth_append
              split: if_splits sum.splits bool.splits option.splits)
    next
      case Monitor
      with assms Run True show ?thesis
        by (auto simp add: step_def resume_def monitor_position_loop_def close_position_request_def
              monitor_after_close_def get_order_book_def set_task_def logger_def Let_def
              nth_list_update
              split: if_splits option.splits)
    next
      case (CloseWait w0)
      with assms Run True show ?thesis
        by (auto simp add: step_def resume_def close_position_confirm_def monitor_resume_def
              monitor_after_close_def profit_percentage_def closed_message_def
              send_notification_def set_task_def logger_def Let_def nth_list_update
              split: if_splits sum.splits bool.splits option.splits)
    next
      case Finished
      with assms Run True show ?thesis by (simp add: step_def resume_def)
    qed
  qed
qed

lemma requested_quotes:
  assumes "run float_str cfg es init = Some s"
  shows "(\<forall>p. active_position s = Some p \<longrightarrow>
            target_price p = calculate_target_price cfg (entry_price p)
            \<and> (\<exists>q. opened_with float_str cfg es q p \<and> ask q = Some (entry_price p)))
       \<and> (\<forall>i q w. i < length (tasks s) \<and> tasks s ! i = OpenWait q w \<longrightarrow>
            requested_by float_str cfg es i q)"
  using assms
proof (induction es arbitrary: s rule: rev_induct)
  case Nil
  then have "s = init" by simp
  then show ?case by (simp add: init_def)
next
  case (snoc e es)
  from snoc.prems obtain s0 where s0: "run float_str cfg es init = Some s0"
    and st: "step float_str cfg e s0 = Some s"
    by (auto simp add: run_snoc split: option.splits)
  note ih = snoc.IH [OF s0]
  show ?case
  proof (intro conjI allI impI)
    fix p
    assume p: "active_position s = Some p"
    from position_after_step [OF st p]
    consider (kept) "active_position s0 = Some p"
      | (made) i ext q where "e = Run i ext" "i < length (tasks s0)"
          "tasks s0 ! i = OpenWait q True"
          "ask q = Some (entry_price p)"
          "target_price p = calculate_target_price cfg (entry_price p)"
          "records cfg (Some s0) e q p"
      by blast
    then have "target_price p = calculate_target_price cfg (entry_price p)
       \<and> (\<exists>q. opened_with float_str cfg (es @ [e]) q p \<and> ask q = Some (entry_price p))"
    proof cases
      case kept
      with ih show ?thesis by (blast intro: opened_with_snoc)
    next
      case made
      with ih have "requested_by float_str cfg es i q" by blast
      with made s0 have "opened_with float_str cfg (es @ [e]) q p"
        using opened_with_last by blast
      with made show ?thesis by blast
    qed
    then show "target_price p = calculate_target_price cfg (entry_price p)"
      and "\<exists>q. opened_with float_str cfg (es @ [e]) q p \<and> ask q = Some (entry_price p)"
      by simp_all
  next
    fix i q w
    assume w: "i < length (tasks s) \<and> tasks s ! i = OpenWait q w"
    then have "i < length (tasks s)" "tasks s ! i = OpenWait q w" by simp_all
    from wait_after_step [OF st this]
    consider (old) w0 where "i < length (tasks s0)" "tasks s0 ! i = OpenWait q w0"
      | (new) "e = Run i True" "i < length (tasks s0)" "tasks s0 ! i = OpenSleep"
          "orderbook_data s0 = q"
          "fst (open_position_request True s0) = Suspended (OpenWait q False)"
      by blast
    then show "requested_by float_str cfg (es @ [e]) i q"
    proof cases
      case old
      with ih show ?thesis by (blast intro: requested_by_snoc)
    next
      case new
      then show ?thesis using requested_by_last [OF s0] by simp
    qed
  qed
qed

text \<open>
  C4 as it is stated does not hold of the exact product: the target is computed in
  floats. With a target of ten per cent and an entry price of 100 the exact product is
  110, and the bot records the next double above it, because 10 / 100 and 1 + 0.1 are
  rounded on the way. With the bid at 110 the monitor then finds the bid below the target
  and places no sell order.
\<close>

theorem target_price_is_rounded:
  "active_position (after_at_ten_percent until_open_at_100)
     = Some \<lparr> order_id = JStr ''X'', symbol = ''BTCUSDT'', amount = 1,
                entry_price = 100,
                target_price = 7740561859543041 / 70368744177664 \<rparr>
   \<and> (100::real) * (1 + TARGET_PROFIT_PERCENT ten_percent_config / 100) = 110
   \<and> (110::real) < 7740561859543041 / 70368744177664
   \<and> orderbook_data (after_at_ten_percent
         (until_open_at_100 @ [Feed (book_message ''110'' ''111''), Run 1 True]))
       = \<lparr> bid = Some 110, ask = Some 111 \<rparr>
   \<and> orders (after_at_ten_percent
         (until_open_at_100 @ [Feed (book_message ''110'' ''111''), Run 1 True]))
       = [Buy]
   \<and> tasks (after_at_ten_percent
         (until_open_at_100 @ [Feed (book_message ''110'' ''111''), Run 1 True]))
       = [Finished, Monitor]"
  by (simp add: model_defs fixture_defs target_of_100_at_ten_percent)

text \<open>
  C4, amended. Whatever has happened since the bot started, a recorded position \<open>p\<close> has
  as its target the value of \<open>entry_price * (1 + TARGET_PROFIT_PERCENT / 100)\<close> in double
  arithmetic, the quotient, the sum and the product each rounded to the nearest double.
  Its entry price is the ask that was in the cache when the call of \<open>open_position\<close>
  that recorded \<open>p\<close> placed its buy order, not a later one. No later event changes the
  recorded position but to clear it or when another \<open>open_position\<close> gets its
  confirmation and records its own.
\<close>

theorem target_price_fixed_at_request:
  assumes "run float_str cfg es init = Some s"
    and "active_position s = Some p"
  shows "target_price p
           = double_mul (entry_price p)
               (double_add 1 (double_div (TARGET_PROFIT_PERCENT cfg) 100))
       \<and> (\<exists>q. opened_with float_str cfg es q p \<and> ask q = Some (entry_price p))
       \<and> (\<forall>e s' p'. step float_str cfg e s = Some s' \<and> active_position s' = Some p' \<longrightarrow>
             p' = p
             \<or> (\<exists>i ext q. e = Run i ext \<and> i < length (tasks s)
                   \<and> tasks s ! i = OpenWait q True))"
proof (intro conjI allI impI)
  from requested_quotes [OF assms(1)] assms(2)
  show "target_price p
           = double_mul (entry_price p)
               (double_add 1 (double_div (TARGET_PROFIT_PERCENT cfg) 100))"
    by (simp add: calculate_target_price_def)
  from requested_quotes [OF assms(1)] assms(2)
  show "\<exists>q. opened_with float_str cfg es q p \<and> ask q = Some (entry_price p)"
    by blast
next
  fix e s' p'
  assume "step float_str cfg e s = Some s' \<and> active_position s' = Some p'"
  then have "step float_str cfg e s = Some s'" "active_position s' = Some p'"
    by simp_all
  from position_after_step [OF this] assms(2)
  show "p' = p \<or> (\<exists>i ext q. e = Run i ext \<and> i < length (tasks s)
                   \<and> tasks s ! i = OpenWait q True)"
    by auto
qed

theorem target_price_fixed_at_request_witness:
  "run float_digits example_config until_open_quote_moved init
     = Some (after until_open_quote_moved)
   \<and> active_position (after until_open_quote_moved) = Some example_position
   \<and> orderbook_data (after until_open_quote_moved) = \<lparr> bid = Some 105, ask = Some 106 \<rparr>
   \<and> entry_price example_position = 101
   \<and> target_price example_position = 7178315593563505 / 70368744177664
   \<and> target_price example_position
       = double_mul (entry_price example_position)
           (double_add 1 (double_div (TARGET_PROFIT_PERCENT example_config) 100))
   \<and> (\<exists>q. opened_with float_digits example_config until_open_quote_moved q example_position
          \<and> ask q = Some (entry_price example_position))"
proof -
  let ?s = "after until_open_quote_moved"
  have r: "run float_digits example_config until_open_quote_moved init = Some ?s"
    by (simp add: model_defs fixture_defs)
  have p: "active_position ?s = Some example_position"
    by (simp add: model_defs fixture_defs example_position_def)
  have q: "orderbook_data ?s = \<lparr> bid = Some 105, ask = Some 106 \<rparr>"
    by (simp add: model_defs fixture_defs)
  have e: "entry_price example_position = 101"
    "target_price example_position = 7178315593563505 / 70368744177664"
    by (simp_all add: example_position_def)
  from target_price_fixed_at_request [OF r p]
  have "target_price example_position
       = double_mul (entry_price example_position)
           (double_add 1 (double_div (TARGET_PROFIT_PERCENT example_config) 100))"
    and "\<exists>q. opened_with float_digits example_config until_open_quote_moved q example_position
          \<and> ask q = Some (entry_price example_position)"
    by blast+
  with r p q e show ?thesis by (intro conjI)
qed

section \<open>What the caller is told\<close>

text \<open>
  C3 as it is stated does not hold: \<open>open_position\<close> and \<open>close_position\<close> return a
  bool. An open without market data, an open whose wait expires and an open whose
  confirmation is a rejection all return False, and the operator gets the same answer
  for the last two.
\<close>

theorem open_failures_look_alike:
  "fst (open_position_request True init) = Returned False
   \<and> fst (open_position_timeout (after until_buy_sent)) = False
   \<and> fst (open_position_confirm example_config \<lparr> bid = Some 100, ask = Some 101 \<rparr>
            (after (until_buy_sent @ [Confirmation 0 rejected_message]))) = False
   \<and> replies (after (until_buy_sent @ [Timeout 0])) = [OpeningWait, CouldNotOpen]
   \<and> replies (after (until_buy_sent @ [Confirmation 0 rejected_message, Run 0 True]))
       = [OpeningWait, CouldNotOpen]"
  by (simp add: model_defs fixture_defs)

text \<open>
  C3, amended. The caller of \<open>open_position\<close> and \<open>close_position\<close> is given False
  after an expired wait, after a confirmation that is not a success and (for an open)
  without market data, and True only after a success confirmation; \<open>trade_command\<close>
  answers every False in the same way. The kinds of failure differ in the log line
  only: a timeout line, a line with the gateway's response, a line for the missing
  order book.
\<close>

theorem failures_return_false:
  "open_position_timeout s = (False, logger OpenTimeout s)
   \<and> close_position_timeout s = (False, logger CloseTimeout s)
   \<and> (response_ok (order_response s) = Inr False \<longrightarrow>
         open_position_confirm cfg orderbook s = (False, logger (OpenError (order_response s)) s)
       \<and> close_position_confirm s = (False, logger (CloseError (order_response s)) s))
   \<and> (\<not> price_truthy (bid (orderbook_data s)) \<or> \<not> price_truthy (ask (orderbook_data s)) \<longrightarrow>
         open_position_request ext s = (Returned False, logger NoOrderbookData s))
   \<and> (fst (open_position_confirm cfg orderbook s) \<or> fst (close_position_confirm s) \<longrightarrow>
         response_ok (order_response s) = Inr True)
   \<and> trade_command_result False s = answer CouldNotOpen s"
  by (auto simp add: open_position_timeout_def close_position_timeout_def
        open_position_confirm_def close_position_confirm_def open_position_request_def
        trade_command_result_def Let_def
        split: sum.splits bool.splits option.splits)

theorem failures_return_false_witness:
  "response_ok (order_response (after (until_buy_sent @ [Confirmation 0 rejected_message])))
     = Inr False
   \<and> open_position_confirm example_config \<lparr> bid = Some 100, ask = Some 101 \<rparr>
        (after (until_buy_sent @ [Confirmation 0 rejected_message]))
     = (False, logger (OpenError (Some rejected_message))
                 (after (until_buy_sent @ [Confirmation 0 rejected_message])))
   \<and> \<not> price_truthy (bid (orderbook_data init))
   \<and> open_position_request True init = (Returned False, logger NoOrderbookData init)
   \<and> fst (open_position_confirm example_config \<lparr> bid = Some 100, ask = Some 101 \<rparr>
        (after (until_buy_sent @ [Confirmation 0 (filled_message ''X'')])))
   \<and> response_ok (order_response (after (until_buy_sent @ [Confirmation 0 (filled_message ''X'')])))
     = Inr True"
proof -
  let ?r = "after (until_buy_sent @ [Confirmation 0 rejected_message])"
  let ?f = "after (until_buy_sent @ [Confirmation 0 (filled_message ''X'')])"
  let ?q = "\<lparr> bid = Some 100, ask = Some (101::real) \<rparr>"
  have rej: "response_ok (order_response ?r) = Inr False"
    by (simp add: model_defs fixture_defs)
  have resp: "order_response ?r = Some rejected_message"
    by (simp add: model_defs fixture_defs)
  have unset: "\<not> price_truthy (bid (orderbook_data init))"
    by (simp add: init_def price_truthy_def)
  have ok: "fst (open_position_confirm example_config ?q ?f)"
    by (simp add: model_defs fixture_defs)
  have a: "open_position_confirm example_config ?q ?r
             = (False, logger (OpenError (order_response ?r)) ?r)"
    using failures_return_false [of ?r example_config ?q True] rej by blast
  have b: "open_position_request True init = (Returned False, logger NoOrderbookData init)"
    using failures_return_false [of init example_config ?q True] unset by blast
  have c: "response_ok (order_response ?f) = Inr True"
    using failures_return_false [of ?f example_config ?q True] ok by blast
  from rej a resp unset b ok c show ?thesis by simp
qed

section \<open>One position at a time\<close>

text \<open>
  C1 as it is stated does not hold while an open is in progress: the bot records no
  such state, and \<open>trade_command\<close> tests \<open>active_position\<close> only, which is None until
  the buy is confirmed. A second /trade sent while the first \<open>open_position\<close> waits for
  its confirmation is answered like the first and places a second buy order; when one
  confirmation then wakes both waits, the second call writes its position over the
  one the first call recorded.
\<close>

theorem second_trade_accepted_while_opening:
  "tasks (after until_buy_sent) = [OpenWait \<lparr> bid = Some 100, ask = Some 101 \<rparr> False]
   \<and> replies (after (until_buy_sent @ [Trade])) = [OpeningWait, OpeningWait]
   \<and> tasks (after (until_buy_sent @ [Trade]))
       = [OpenWait \<lparr> bid = Some 100, ask = Some 101 \<rparr> False, TradeAnswer]
   \<and> orders (after (until_buy_sent @ [Trade, Run 1 True, Run 1 True])) = [Buy, Buy]
   \<and> active_position (after (until_buy_sent @ [Trade, Run 1 True,
         Feed (book_message ''102'' ''103''), Run 1 True,
         Confirmation 0 (filled_message ''X''), Run 0 True]))
       = Some example_position
   \<and> active_position (after (until_buy_sent @ [Trade, Run 1 True,
         Feed (book_message ''102'' ''103''), Run 1 True,
         Confirmation 0 (filled_message ''X''), Run 0 True, Run 1 True]))
       = Some \<lparr> order_id = JStr ''X'', symbol = ''BTCUSDT'', amount = 1,
                 entry_price = 103, target_price = 3660230228401193 / 35184372088832 \<rparr>"
  by (simp add: model_defs fixture_defs example_position_def)

text \<open>
  C1, amended. While a position is recorded, which is so when it is open and while it
  is being closed, a /trade is refused with the answer that a position is already
  open: the recorded position is unchanged, no order is placed and no coroutine is
  started.
\<close>

theorem trade_rejected_while_position_recorded:
  assumes "active_position s = Some p"
  shows "\<exists>s'. step float_str cfg Trade s = Some s'
            \<and> replies s' = replies s @ [AlreadyOpen]
            \<and> active_position s' = Some p
            \<and> orders s' = orders s
            \<and> tasks s' = tasks s"
  using assms by (simp add: step_def trade_command_def answer_def)

theorem trade_rejected_while_position_recorded_witness:
  "active_position (after until_sell_sent) = Some example_position
   \<and> tasks (after until_sell_sent) = [Finished, CloseWait False]
   \<and> (\<exists>s'. step float_digits example_config Trade (after until_sell_sent) = Some s'
          \<and> replies s' = [OpeningWait, PositionOpened ''BTCUSDT'' 101 (7178315593563505 / 70368744177664), AlreadyOpen]
          \<and> active_position s' = Some example_position
          \<and> orders s' = [Buy, Sell]
          \<and> tasks s' = [Finished, CloseWait False])"
proof -
  let ?s = "after until_sell_sent"
  have p: "active_position ?s = Some example_position"
    by (simp add: model_defs fixture_defs example_position_def)
  have before:
    "tasks ?s = [Finished, CloseWait False]"
    "orders ?s = [Buy, Sell]"
    "replies ?s = [OpeningWait, PositionOpened ''BTCUSDT'' 101 (7178315593563505 / 70368744177664)]"
    by (simp_all add: model_defs fixture_defs)
  have "\<exists>s'. step float_digits example_config Trade ?s = Some s'
          \<and> replies s' = [OpeningWait, PositionOpened ''BTCUSDT'' 101 (7178315593563505 / 70368744177664), AlreadyOpen]
          \<and> active_position s' = Some example_position
          \<and> orders s' = [Buy, Sell]
          \<and> tasks s' = [Finished, CloseWait False]"
    using trade_rejected_while_position_recorded [OF p, of float_digits example_config]
    by (simp add: before)
  with p before(1) show ?thesis by (intro conjI)
qed

section \<open>The wait for a confirmation\<close>

text \<open>
  C9 as it is stated does not hold: a confirmation is not tied to the call whose order
  it answers. The first open sends its buy order and its wait expires; a second open
  sends its own buy order and waits; then the gateway's answer to the first order
  arrives. It ends the wait of the second call, which records a position with the
  first order's id and tells the operator that the position is open.
\<close>

theorem late_confirmation_taken_by_next_call:
  "orders (after until_buy_sent) = [Buy]
   \<and> replies (after (until_buy_sent @ [Timeout 0])) = [OpeningWait, CouldNotOpen]
   \<and> orders (after (until_buy_sent @ [Timeout 0, Trade, Run 1 True, Run 1 True])) = [Buy, Buy]
   \<and> tasks (after (until_buy_sent @ [Timeout 0, Trade, Run 1 True, Run 1 True]))
       = [Finished, OpenWait \<lparr> bid = Some 100, ask = Some 101 \<rparr> False]
   \<and> active_position (after (until_buy_sent @ [Timeout 0, Trade, Run 1 True, Run 1 True,
         Confirmation 0 (filled_message ''X''), Run 1 True]))
       = Some example_position
   \<and> replies (after (until_buy_sent @ [Timeout 0, Trade, Run 1 True, Run 1 True,
         Confirmation 0 (filled_message ''X''), Run 1 True]))
       = [OpeningWait, CouldNotOpen, OpeningWait,
          PositionOpened ''BTCUSDT'' 101 (7178315593563505 / 70368744177664)]"
  by (simp add: model_defs fixture_defs example_position_def)

lemma waiting_task_ends:
  assumes "i < length (tasks s)"
    and "tasks s ! i = OpenWait orderbook woken \<or> tasks s ! i = CloseWait woken"
    and "resume cfg i ext s = Some s' \<or> expire i s = Some s'"
  shows "i < length (tasks s') \<and> (tasks s' ! i = Finished \<or> tasks s' ! i = Monitor)"
  using assms
  by (auto simp add: resume_def expire_def open_position_confirm_def open_position_timeout_def
        close_position_confirm_def close_position_timeout_def monitor_resume_def
        monitor_after_close_def profit_percentage_def closed_message_def
        trade_resume_def trade_command_result_def set_task_def answer_def logger_def
        send_notification_def Let_def nth_append
        split: sum.splits bool.splits option.splits if_splits)

lemma confirmation_wakes:
  assumes "i < length (tasks s)" and "k < length (orders s)"
    and "tasks s ! i = OpenWait orderbook woken \<or> tasks s ! i = CloseWait woken"
  shows "\<exists>t. step float_str cfg (Confirmation k message) s = Some t
           \<and> order_response t = Some message
           \<and> (tasks t ! i = OpenWait orderbook True \<or> tasks t ! i = CloseWait True)"
  using assms by (auto simp add: step_def handle_order_response_def)

text \<open>
  C9, amended. Both \<open>open_position\<close> and \<open>close_position\<close> clear the event before
  they place the order: when the order has gone out the flag is down and the call waits
  without having been woken, whatever flag and response an earlier call has left
  behind, and when placing the order raises, the flag is down and no order has gone
  out. A wait that has not been woken since it began cannot return, so a confirmation
  delivered before the request does not end it. Once the wait has ended, by a
  confirmation or by the timeout, the coroutine is no longer waiting. While it waits,
  the gateway's answer to any order that has been placed wakes it and becomes the
  response that the call reads.
\<close>

theorem wait_cleared_before_request:
  "(price_truthy (bid (orderbook_data s)) \<and> price_truthy (ask (orderbook_data s)) \<longrightarrow>
      open_position_request True s
        = (Suspended (OpenWait (orderbook_data s) False),
           s\<lparr> order_response_event := False, orders := orders s @ [Buy] \<rparr>)
    \<and> open_position_request False s
        = (Returned False,
           logger (OpenException ExternalError) (s\<lparr> order_response_event := False \<rparr>)))
   \<and> close_position_request True s
        = (Suspended (CloseWait False),
           s\<lparr> order_response_event := False, orders := orders s @ [Sell] \<rparr>)
   \<and> close_position_request False s
        = (Returned False,
           logger (CloseException ExternalError) (s\<lparr> order_response_event := False \<rparr>))
   \<and> (i < length (tasks s)
        \<and> (tasks s ! i = OpenWait orderbook False \<or> tasks s ! i = CloseWait False) \<longrightarrow>
          resume cfg i ext s = None)
   \<and> (i < length (tasks s)
        \<and> (tasks s ! i = OpenWait orderbook woken \<or> tasks s ! i = CloseWait woken)
        \<and> (resume cfg i ext s = Some s' \<or> expire i s = Some s') \<longrightarrow>
          i < length (tasks s') \<and> (tasks s' ! i = Finished \<or> tasks s' ! i = Monitor))
   \<and> (i < length (tasks s) \<and> k < length (orders s)
        \<and> (tasks s ! i = OpenWait orderbook woken \<or> tasks s ! i = CloseWait woken) \<longrightarrow>
          (\<exists>t. step float_str cfg (Confirmation k message) s = Some t
              \<and> order_response t = Some message
              \<and> (tasks t ! i = OpenWait orderbook True \<or> tasks t ! i = CloseWait True)))"
proof (intro conjI impI)
  assume "i < length (tasks s)
        \<and> (tasks s ! i = OpenWait orderbook woken \<or> tasks s ! i = CloseWait woken)
        \<and> (resume cfg i ext s = Some s' \<or> expire i s = Some s')"
  then have "i < length (tasks s') \<and> (tasks s' ! i = Finished \<or> tasks s' ! i = Monitor)"
    using waiting_task_ends by blast
  then show "i < length (tasks s')" "tasks s' ! i = Finished \<or> tasks s' ! i = Monitor"
    by simp_all
next
  assume "i < length (tasks s) \<and> k < length (orders s)
        \<and> (tasks s ! i = OpenWait orderbook woken \<or> tasks s ! i = CloseWait woken)"
  then show "\<exists>t. step float_str cfg (Confirmation k message) s = Some t
              \<and> order_response t = Some message
              \<and> (tasks t ! i = OpenWait orderbook True \<or> tasks t ! i = CloseWait True)"
    using confirmation_wakes by blast
qed (auto simp add: open_position_request_def close_position_request_def resume_def Let_def)

theorem wait_cleared_before_request_witness:
  "order_response_event (after (until_closed @ [Trade, Run 2 True]))
   \<and> response_ok (order_response (after (until_closed @ [Trade, Run 2 True]))) = Inr True
   \<and> price_truthy (bid (orderbook_data (after (until_closed @ [Trade, Run 2 True]))))
   \<and> price_truthy (ask (orderbook_data (after (until_closed @ [Trade, Run 2 True]))))
   \<and> fst (open_position_request True (after (until_closed @ [Trade, Run 2 True])))
       = Suspended (OpenWait \<lparr> bid = Some 103, ask = Some 104 \<rparr> False)
   \<and> \<not> order_response_event (snd (open_position_request True
                                       (after (until_closed @ [Trade, Run 2 True]))))
   \<and> tasks (after (until_closed @ [Trade, Run 2 True, Run 2 True])) ! 2
       = OpenWait \<lparr> bid = Some 103, ask = Some 104 \<rparr> False
   \<and> resume example_config 2 True (after (until_closed @ [Trade, Run 2 True, Run 2 True])) = None
   \<and> tasks (after (until_closed @ [Trade, Run 2 True, Run 2 True, Timeout 2])) ! 2 = Finished
   \<and> (\<exists>t. step float_digits example_config (Confirmation 0 (filled_message ''X''))
              (after (until_closed @ [Trade, Run 2 True, Run 2 True])) = Some t
          \<and> order_response t = Some (filled_message ''X'')
          \<and> tasks t ! 2 = OpenWait \<lparr> bid = Some 103, ask = Some 104 \<rparr> True)"
proof -
  let ?s = "after (until_closed @ [Trade, Run 2 True])"
  let ?w = "after (until_closed @ [Trade, Run 2 True, Run 2 True])"
  let ?e = "after (until_closed @ [Trade, Run 2 True, Run 2 True, Timeout 2])"
  let ?q = "\<lparr> bid = Some 103, ask = Some (104::real) \<rparr>"
  have stale: "order_response_event ?s" "response_ok (order_response ?s) = Inr True"
    by (simp_all add: model_defs fixture_defs)
  have quote: "price_truthy (bid (orderbook_data ?s))" "price_truthy (ask (orderbook_data ?s))"
    "orderbook_data ?s = ?q"
    by (simp_all add: model_defs fixture_defs)
  have waits: "2 < length (tasks ?w)" "tasks ?w ! 2 = OpenWait ?q False"
    by (simp_all add: model_defs fixture_defs)
  have placed: "0 < length (orders ?w)"
    by (simp add: model_defs fixture_defs)
  have ends: "expire 2 ?w = Some ?e"
    by (simp add: model_defs fixture_defs)
  have request: "open_position_request True ?s
      = (Suspended (OpenWait (orderbook_data ?s) False),
         ?s\<lparr> order_response_event := False, orders := orders ?s @ [Buy] \<rparr>)"
    using wait_cleared_before_request [where s = ?s] quote(1,2)
    by blast
  note inst = wait_cleared_before_request [where s = ?w and i = 2 and orderbook = ?q
      and cfg = example_config and ext = True and woken = False and s' = ?e and k = 0
      and float_str = float_digits and message = "filled_message ''X''"]
  have blocked: "resume example_config 2 True ?w = None"
    using inst waits by blast
  have over: "tasks ?e ! 2 = Finished \<or> tasks ?e ! 2 = Monitor"
    using inst waits ends by blast
  have "tasks ?e ! 2 \<noteq> Monitor"
    by (simp add: model_defs fixture_defs)
  with over have fin: "tasks ?e ! 2 = Finished"
    by blast
  from inst waits placed obtain t
    where t: "step float_digits example_config (Confirmation 0 (filled_message ''X'')) ?w = Some t"
      "order_response t = Some (filled_message ''X'')"
      "tasks t ! 2 = OpenWait ?q True \<or> tasks t ! 2 = CloseWait True"
    by blast
  have "tasks (handle_order_response (filled_message ''X'') ?w) ! 2 \<noteq> CloseWait True"
    by (simp add: model_defs fixture_defs)
  with t placed have "tasks t ! 2 = OpenWait ?q True"
    by (auto simp add: step_def)
  with t have late: "\<exists>t. step float_digits example_config (Confirmation 0 (filled_message ''X'')) ?w
            = Some t
          \<and> order_response t = Some (filled_message ''X'')
          \<and> tasks t ! 2 = OpenWait ?q True"
    by blast
  have "fst (open_position_request True ?s) = Suspended (OpenWait ?q False)"
    "\<not> order_response_event (snd (open_position_request True ?s))"
    by (simp_all add: request quote(3))
  with stale quote(1,2) waits(2) blocked fin late show ?thesis
    by (intro conjI)
qed

section \<open>Closing a position\<close>

text \<open>
  C8. \<open>close_position\<close>, called by the monitor, is waiting for its confirmation while a
  position \<open>p\<close> is recorded. If the wait expires, or if the confirmation that ends it is
  not a success, then \<open>p\<close> is still the recorded position, field for field, no
  notification is sent, and the monitor is back in its loop. And whenever the monitor
  runs its loop with \<open>p\<close> recorded and a bid in the cache, it compares the bid with the
  target of \<open>p\<close> again: at or above the target it sends a new sell order and waits for
  the confirmation, below it sleeps.
\<close>

theorem failed_close_keeps_position:
  assumes "i < length (tasks s)"
    and "tasks s ! i = CloseWait woken"
    and "active_position s = Some p"
    and "woken \<longrightarrow> response_ok (order_response s) \<noteq> Inr True"
  shows "(\<exists>s'. (if woken then resume cfg i ext s else expire i s) = Some s'
            \<and> active_position s' = Some p
            \<and> tasks s' = (tasks s)[i := Monitor]
            \<and> orderbook_data s' = orderbook_data s
            \<and> orders s' = orders s
            \<and> notifications s' = notifications s)
       \<and> (\<forall>t b sent. i < length (tasks t) \<and> tasks t ! i = Monitor \<and> active_position t = Some p
              \<and> bid (orderbook_data t) = Some b \<and> b \<noteq> 0 \<longrightarrow>
            (\<exists>t'. resume cfg i sent t = Some t'
               \<and> active_position t' = Some p
               \<and> (if target_price p \<le> b \<and> sent
                   then orders t' = orders t @ [Sell] \<and> tasks t' = (tasks t)[i := CloseWait False]
                   else orders t' = orders t \<and> tasks t' = (tasks t)[i := Monitor])))"
proof (intro conjI allI impI)
  show "\<exists>s'. (if woken then resume cfg i ext s else expire i s) = Some s'
            \<and> active_position s' = Some p
            \<and> tasks s' = (tasks s)[i := Monitor]
            \<and> orderbook_data s' = orderbook_data s
            \<and> orders s' = orders s
            \<and> notifications s' = notifications s"
    using assms
    by (cases woken)
       (auto simp add: resume_def expire_def close_position_confirm_def
          close_position_timeout_def monitor_resume_def monitor_after_close_def
          set_task_def logger_def split: sum.splits bool.splits)
next
  fix t :: world and b :: real and sent :: bool
  assume "i < length (tasks t) \<and> tasks t ! i = Monitor \<and> active_position t = Some p
              \<and> bid (orderbook_data t) = Some b \<and> b \<noteq> 0"
  then show "\<exists>t'. resume cfg i sent t = Some t'
               \<and> active_position t' = Some p
               \<and> (if target_price p \<le> b \<and> sent
                   then orders t' = orders t @ [Sell] \<and> tasks t' = (tasks t)[i := CloseWait False]
                   else orders t' = orders t \<and> tasks t' = (tasks t)[i := Monitor])"
    by (simp add: resume_def monitor_position_loop_def get_order_book_def price_truthy_def
          close_position_request_def monitor_after_close_def set_task_def logger_def Let_def)
qed

theorem failed_close_keeps_position_witness:
  "tasks (after until_sell_sent) ! 1 = CloseWait False
   \<and> active_position (after until_sell_sent) = Some example_position
   \<and> (\<exists>s'. expire 1 (after until_sell_sent) = Some s'
          \<and> active_position s' = Some example_position
          \<and> tasks s' = [Finished, Monitor]
          \<and> orders s' = [Buy, Sell]
          \<and> (\<exists>t'. resume example_config 1 True s' = Some t'
                 \<and> active_position t' = Some example_position
                 \<and> orders t' = [Buy, Sell, Sell]
                 \<and> tasks t' = [Finished, CloseWait False]))
   \<and> tasks (after until_sell_rejected) ! 1 = CloseWait True
   \<and> response_ok (order_response (after until_sell_rejected))
       = Inr False
   \<and> (\<exists>s'. resume example_config 1 True
               (after until_sell_rejected) = Some s'
          \<and> active_position s' = Some example_position
          \<and> tasks s' = [Finished, Monitor]
          \<and> orders s' = [Buy, Sell])"
proof -
  let ?s = "after until_sell_sent"
  let ?r = "after until_sell_rejected"
  have l: "1 < length (tasks ?s)" "1 < length (tasks ?r)"
    by (simp_all add: model_defs fixture_defs)
  have t: "tasks ?s ! 1 = CloseWait False"
    by (simp add: model_defs fixture_defs)
  have tr: "tasks ?r ! 1 = CloseWait True"
    by (simp add: model_defs fixture_defs)
  have p: "active_position ?s = Some example_position"
    "active_position ?r = Some example_position"
    by (simp_all add: model_defs fixture_defs example_position_def)
  have w: "False \<longrightarrow> response_ok (order_response ?s) \<noteq> Inr True"
    by simp
  have rej: "response_ok (order_response ?r) = Inr False"
    by (simp add: model_defs fixture_defs)
  then have rr: "True \<longrightarrow> response_ok (order_response ?r) \<noteq> Inr True"
    by simp
  have before:
    "tasks ?s = [Finished, CloseWait False]"
    "orders ?s = [Buy, Sell]"
    "orderbook_data ?s = \<lparr> bid = Some 103, ask = Some 104 \<rparr>"
    "tasks ?r = [Finished, CloseWait True]"
    "orders ?r = [Buy, Sell]"
    by (simp_all add: model_defs fixture_defs)
  note inst = failed_close_keeps_position [OF l(1) t p(1) w, of example_config True]
  from inst obtain s' where s':
    "expire 1 ?s = Some s'" "active_position s' = Some example_position"
    "tasks s' = (tasks ?s)[1 := Monitor]" "orderbook_data s' = orderbook_data ?s"
    "orders s' = orders ?s"
    by auto
  have tick_pre: "1 < length (tasks s') \<and> tasks s' ! 1 = Monitor
      \<and> active_position s' = Some example_position
      \<and> bid (orderbook_data s') = Some 103 \<and> (103::real) \<noteq> 0"
    using s' by (simp add: before)
  from inst tick_pre obtain t' where t':
    "resume example_config 1 True s' = Some t'" "active_position t' = Some example_position"
    "if target_price example_position \<le> 103 \<and> True
       then orders t' = orders s' @ [Sell] \<and> tasks t' = (tasks s')[1 := CloseWait False]
       else orders t' = orders s' \<and> tasks t' = (tasks s')[1 := Monitor]"
    by blast
  have "target_price example_position \<le> 103"
    by (simp add: example_position_def)
  with t'(3) have "orders t' = [Buy, Sell, Sell]" "tasks t' = [Finished, CloseWait False]"
    using s' by (simp_all add: before)
  with s' t' have timed_out: "\<exists>s'. expire 1 ?s = Some s'
          \<and> active_position s' = Some example_position
          \<and> tasks s' = [Finished, Monitor]
          \<and> orders s' = [Buy, Sell]
          \<and> (\<exists>t'. resume example_config 1 True s' = Some t'
                 \<and> active_position t' = Some example_position
                 \<and> orders t' = [Buy, Sell, Sell]
                 \<and> tasks t' = [Finished, CloseWait False])"
    by (auto simp add: before)
  from failed_close_keeps_position [OF l(2) tr p(2) rr, of example_config True]
  obtain u where u: "resume example_config 1 True ?r = Some u"
    "active_position u = Some example_position"
    "tasks u = (tasks ?r)[1 := Monitor]" "orders u = orders ?r"
    by auto
  then have "resume example_config 1 True ?r = Some u
          \<and> active_position u = Some example_position
          \<and> tasks u = [Finished, Monitor]
          \<and> orders u = [Buy, Sell]"
    by (simp add: before)
  then have rejected: "\<exists>s'. resume example_config 1 True ?r = Some s'
          \<and> active_position s' = Some example_position
          \<and> tasks s' = [Finished, Monitor]
          \<and> orders s' = [Buy, Sell]"
    by (rule exI)
  from t p(1) timed_out tr rej rejected show ?thesis by (intro conjI)
qed

section \<open>The notification\<close>

text \<open>No event adds a notification, so no run of the bot ever sends one.\<close>

lemma notifications_after_step:
  assumes "step float_str cfg e s = Some s'"
  shows "notifications s' = notifications s"
proof (cases e)
  case Trade
  with assms show ?thesis
    by (auto simp add: step_def trade_command_def answer_def Let_def split: if_splits)
next
  case Status
  with assms show ?thesis
    by (auto simp add: step_def status_command_def answer_def logger_def get_order_book_def Let_def
          split: if_splits option.splits)
next
  case (Feed m)
  with assms show ?thesis
    by (auto simp add: step_def handle_orderbook_def logger_def Let_def split: parsed.splits)
next
  case (Confirmation k m)
  with assms show ?thesis
    by (auto simp add: step_def handle_order_response_def split: if_splits)
next
  case (Timeout i)
  with assms show ?thesis
    by (auto simp add: step_def expire_def open_position_timeout_def close_position_timeout_def
          trade_resume_def trade_command_result_def monitor_resume_def monitor_after_close_def
          set_task_def answer_def logger_def
          split: if_splits task.splits)
next
  case (Run i ext)
  show ?thesis
  proof (cases "i < length (tasks s)")
    case False
    with assms Run show ?thesis by (simp add: step_def resume_def)
  next
    case True
    show ?thesis
    proof (cases "tasks s ! i")
      case TradeAnswer
      with assms Run True show ?thesis
        by (auto simp add: step_def resume_def open_position_start_def subscribe_to_orderbook_def
              trade_resume_def trade_command_result_def set_task_def answer_def logger_def Let_def
              split: if_splits)
    next
      case OpenSleep
      with assms Run True show ?thesis
        by (auto simp add: step_def resume_def open_position_request_def
              trade_resume_def trade_command_result_def set_task_def answer_def logger_def Let_def
              split: if_splits)
    next
      case (OpenWait q w)
      with assms Run True show ?thesis
        by (auto simp add: step_def resume_def open_position_confirm_def
              trade_resume_def trade_command_result_def set_task_def answer_def logger_def Let_def
              split: if_splits sum.splits bool.splits option.splits)
    next
      case Monitor
      with assms Run True show ?thesis
        by (auto simp add: step_def resume_def monitor_position_loop_def close_position_request_def
              monitor_after_close_def get_order_book_def set_task_def logger_def Let_def
              split: if_splits option.splits)
    next
      case (CloseWait w)
      with assms Run True show ?thesis
        by (auto simp add: step_def resume_def close_position_confirm_def monitor_resume_def
              monitor_after_close_def profit_percentage_def closed_message_def
              send_notification_def set_task_def logger_def Let_def
              split: if_splits sum.splits bool.splits option.splits)
    next
      case Finished
      with assms Run True show ?thesis by (simp add: step_def resume_def)
    qed
  qed
qed

lemma notifications_never_sent:
  assumes "run float_str cfg es init = Some s"
  shows "notifications s = []"
  using assms
proof (induction es arbitrary: s rule: rev_induct)
  case Nil
  then have "s = init" by simp
  then show ?case by (simp add: init_def)
next
  case (snoc e es)
  from snoc.prems obtain s0 where "run float_str cfg es init = Some s0"
    and "step float_str cfg e s0 = Some s"
    by (auto simp add: run_snoc split: option.splits)
  with snoc.IH show ?case
    by (simp add: notifications_after_step)
qed

text \<open>
  C2 is what the code sets out to do, and it does not get there. When the sell is
  confirmed, \<open>close_position\<close> sets \<open>active_position\<close> to None at line 223 and then
  returns True; the monitor then reads \<open>self.active_position['entry_price']\<close> at line
  179, which raises TypeError. The handler of line 192 logs it, and the profit is not
  computed and \<open>send_notification\<close> is not called. The position is cleared, and the
  monitor ends at its next turn.
\<close>

theorem successful_close_sends_no_notification:
  assumes "i < length (tasks s)"
    and "tasks s ! i = CloseWait True"
    and "response_ok (order_response s) = Inr True"
  shows "\<exists>s'. resume cfg i ext s = Some s'
            \<and> active_position s' = None
            \<and> notifications s' = notifications s
            \<and> log s' = log s @ [ClosedOk (order_response s), MonitorError TypeError]
            \<and> tasks s' = (tasks s)[i := Monitor]"
  using assms
  by (simp add: resume_def close_position_confirm_def monitor_resume_def
        monitor_after_close_def profit_percentage_def set_task_def logger_def)

theorem successful_close_sends_no_notification_witness:
  "1 < length (tasks (after (until_sell_sent @ [Confirmation 1 (filled_message ''Y'')])))
   \<and> tasks (after (until_sell_sent @ [Confirmation 1 (filled_message ''Y'')])) ! 1 = CloseWait True
   \<and> response_ok (order_response (after (until_sell_sent @ [Confirmation 1 (filled_message ''Y'')])))
       = Inr True
   \<and> active_position (after (until_sell_sent @ [Confirmation 1 (filled_message ''Y'')]))
       = Some example_position
   \<and> bid (orderbook_data (after (until_sell_sent @ [Confirmation 1 (filled_message ''Y'')])))
       = Some 103
   \<and> (\<exists>s'. resume example_config 1 True
               (after (until_sell_sent @ [Confirmation 1 (filled_message ''Y'')])) = Some s'
          \<and> active_position s' = None
          \<and> notifications s' = [])"
proof -
  let ?s = "after (until_sell_sent @ [Confirmation 1 (filled_message ''Y'')])"
  have l: "1 < length (tasks ?s)"
    by (simp add: model_defs fixture_defs)
  have t: "tasks ?s ! 1 = CloseWait True"
    by (simp add: model_defs fixture_defs)
  have r: "response_ok (order_response ?s) = Inr True"
    by (simp add: model_defs fixture_defs)
  have before: "active_position ?s = Some example_position"
    "bid (orderbook_data ?s) = Some 103" "notifications ?s = []"
    by (simp_all add: model_defs fixture_defs example_position_def)
  from successful_close_sends_no_notification [OF l t r, of example_config True]
  obtain s' where "resume example_config 1 True ?s = Some s'" "active_position s' = None"
    "notifications s' = notifications ?s"
    by blast
  then have "resume example_config 1 True ?s = Some s'
          \<and> active_position s' = None
          \<and> notifications s' = []"
    by (simp only: before(3) simp_thms)
  then have "\<exists>s'. resume example_config 1 True ?s = Some s'
          \<and> active_position s' = None
          \<and> notifications s' = []"
    by (rule exI)
  with l t r before(1,2) show ?thesis by (intro conjI)
qed

end
